theory Spec2Isabelle
  imports Complex_Main "HOL-Library.Monad_Syntax" "HOL-Library.Multiset"
begin

section \<open>MovieNow visualizations: the data model\<close>

text \<open>
  The program \<^verbatim>\<open>visualizations.py\<close> builds five small tables and feeds them to
  plotting calls. The embedding below follows the source function by function.
  Values of numpy's \<^verbatim>\<open>float64\<close> are modelled by exact rationals (every finite double is
  a rational number); the results of a float division may also be infinite or not a number.
  A failing library call (a raised exception) is the value \<open>None\<close>.
\<close>

subsection \<open>Floats, dates and columns\<close>

datatype float64 = Finite rat | PlusInf | MinusInf | NaN

text \<open>numpy's true division of two finite numbers: no exception, a division by zero gives
  an infinity or NaN.\<close>

definition fdiv :: "rat \<Rightarrow> rat \<Rightarrow> float64" where
  "fdiv a b =
     (if b = 0 then (if a = 0 then NaN else if 0 < a then PlusInf else MinusInf)
      else Finite (a / b))"

datatype date = Date (year: nat) (month: nat) (day: nat)

definition is_leap :: "nat \<Rightarrow> bool" where
  "is_leap y = (y mod 4 = 0 \<and> (y mod 100 \<noteq> 0 \<or> y mod 400 = 0))"

definition days_in_month :: "nat \<Rightarrow> nat \<Rightarrow> nat" where
  "days_in_month y m =
     (if m = 2 then (if is_leap y then 29 else 28)
      else if m = 4 \<or> m = 6 \<or> m = 9 \<or> m = 11 then 30 else 31)"

fun date_le :: "date \<Rightarrow> date \<Rightarrow> bool" where
  "date_le (Date y m d) (Date y' m' d') =
     (y < y' \<or> (y = y' \<and> (m < m' \<or> (m = m' \<and> d \<le> d'))))"

text \<open>\<^verbatim>\<open>pd.date_range(start, end, freq='M')\<close>: the month-end dates between the two
  bounds, both included, in increasing order.\<close>

definition date_range_M :: "date \<Rightarrow> date \<Rightarrow> date list" where
  "date_range_M start end =
     filter (\<lambda>d. date_le start d \<and> date_le d end)
       (concat (map (\<lambda>y. map (\<lambda>m. Date y m (days_in_month y m)) [1..<13])
                 [year start..<Suc (year end)]))"

datatype column =
    StrCol "string list"
  | IntCol "int list"
  | FloatCol "rat list"
  | DateCol "date list"

fun col_len :: "column \<Rightarrow> nat" where
  "col_len (StrCol xs) = length xs"
| "col_len (IntCol xs) = length xs"
| "col_len (FloatCol xs) = length xs"
| "col_len (DateCol xs) = length xs"

subsection \<open>Data frames\<close>

text \<open>A \<^verbatim>\<open>pd.DataFrame\<close> built from a dict of columns: the named columns in
  insertion order. The constructor raises \<^verbatim>\<open>ValueError\<close> when the columns do not all
  have the same length.\<close>

type_synonym frame = "(string \<times> column) list"

definition DataFrame :: "(string \<times> column) list \<Rightarrow> frame option" where
  "DataFrame cols =
     (case cols of
        [] \<Rightarrow> Some []
      | (_, c) # rest \<Rightarrow>
          if list_all (\<lambda>(_, c'). col_len c' = col_len c) rest then Some cols else None)"

text \<open>\<^verbatim>\<open>len(df)\<close>: the number of rows.\<close>

definition len_df :: "frame \<Rightarrow> nat" where
  "len_df df = (case df of [] \<Rightarrow> 0 | (_, c) # _ \<Rightarrow> col_len c)"

text \<open>\<^verbatim>\<open>df[name]\<close>: \<^verbatim>\<open>KeyError\<close> when there is no such column.\<close>

definition getitem :: "frame \<Rightarrow> string \<Rightarrow> column option" where
  "getitem df name = map_of df name"

text \<open>The numeric values of a column, as matplotlib and numpy read them.\<close>

fun to_numeric :: "column \<Rightarrow> rat list option" where
  "to_numeric (IntCol xs) = Some (map of_int xs)"
| "to_numeric (FloatCol xs) = Some xs"
| "to_numeric (StrCol xs) = None"
| "to_numeric (DateCol xs) = None"

fun to_strings :: "column \<Rightarrow> string list option" where
  "to_strings (StrCol xs) = Some xs"
| "to_strings (IntCol xs) = None"
| "to_strings (FloatCol xs) = None"
| "to_strings (DateCol xs) = None"

definition numeric :: "frame \<Rightarrow> string \<Rightarrow> rat list option" where
  "numeric df name = getitem df name \<bind> to_numeric"

definition strings :: "frame \<Rightarrow> string \<Rightarrow> string list option" where
  "strings df name = getitem df name \<bind> to_strings"

subsection \<open>numpy's global random generator\<close>

text \<open>
  The generator is numpy's (a Mersenne Twister and a Gaussian sampler in floating point);
  it is a parameter of the model: \<open>seed_state n\<close> is the state that
  \<^verbatim>\<open>np.random.seed(n)\<close> installs, \<open>gauss\<close> draws one standard normal value and
  advances the state.
\<close>

record 'g np_random =
  seed_state :: "nat \<Rightarrow> 'g"
  gauss :: "'g \<Rightarrow> rat \<times> 'g"

text \<open>\<^verbatim>\<open>np.random.normal(loc, scale, size)\<close>: \<open>size\<close> successive draws, each scaled
  and shifted.\<close>

fun normal :: "'g np_random \<Rightarrow> rat \<Rightarrow> rat \<Rightarrow> nat \<Rightarrow> 'g \<Rightarrow> rat list \<times> 'g" where
  "normal lib loc scale 0 g = ([], g)"
| "normal lib loc scale (Suc n) g =
     (let (z, g') = gauss lib g;
          (zs, g'') = normal lib loc scale n g'
      in ((loc + scale * z) # zs, g''))"

text \<open>\<^verbatim>\<open>.astype(int)\<close> on a float array truncates toward zero.\<close>

definition astype_int :: "rat \<Rightarrow> int" where
  "astype_int r = (if r < 0 then \<lceil>r\<rceil> else \<lfloor>r\<rfloor>)"

definition dates :: "frame \<Rightarrow> string \<Rightarrow> date list option" where
  "dates df name =
     getitem df name \<bind> (\<lambda>c. case c of DateCol ds \<Rightarrow> Some ds | _ \<Rightarrow> None)"

subsection \<open>Figures\<close>

text \<open>
  What a plotting call draws is recorded as data: one constructor per Axes method the
  program calls, with the data arguments of the call. Keyword arguments that only style the
  drawing (colours, fonts, markers, transparency, rotation) are left out.
\<close>

datatype axisdata = Cat "string list" | Num "float64 list" | Dates "date list"

text \<open>A formatted number is kept as the format specification and the value.\<close>

datatype label = Lit string | Fmt string rat

datatype artist =
    Bar axisdata "float64 list"
  | Barh axisdata "float64 list"
  | Scatter "float64 list" "float64 list" "float64 list"
  | Plot axisdata "float64 list"
  | Text rat rat label
  | Annotate string rat rat
  | Imshow "float64 list list"
  | Pie "float64 list" "string list"
  | Axhline float64
  | Axvline float64
  | Set_title string
  | Set_xlabel string
  | Set_ylabel string
  | Set_xlim rat rat
  | Set_xticks "nat list"
  | Set_xticklabels "string list"
  | Set_yticks "nat list"
  | Set_yticklabels "string list"
  | Tick_params
  | Grid
  | Legend

record figure =
  suptitle :: string
  axes :: "artist list list"

text \<open>The interactive (plotly) figure: traces placed on a grid of subplots.\<close>

datatype trace =
    GoBar "string list" "float64 list" string
  | GoPie "string list" "float64 list" string
  | GoScatter "date list" "float64 list" string

record plotly_figure =
  subplot_titles :: "string list"
  traces :: "(trace \<times> nat \<times> nat \<times> bool) list"
  title_text :: string
  yaxis_titles :: "(nat \<times> nat \<times> bool \<times> string) list"

datatype content = PNG figure | HTML plotly_figure

subsection \<open>The visualizer instance and the world around it\<close>

record visualizer =
  country_kpis :: frame
  genre_performance :: frame
  customer_segments :: frame
  monthly_trends :: frame
  actor_analysis :: frame

text \<open>
  The process state outside the instance: numpy's global generator, pyplot's open figures
  (the last one is the current figure), the style in use and the styles installed, the
  file system (directories and files by path) and the lines printed so far.
\<close>

record 'g world =
  rng :: 'g
  figs :: "figure list"
  style :: string
  available :: "string list"
  dirs :: "string set"
  files :: "string \<rightharpoonup> content"
  console :: "string list"

subsection \<open>The dataset builder\<close>

text \<open>
  \<^verbatim>\<open>np.random.seed(42)\<close> replaces the state of the global generator; the three
  columns of the monthly table are then drawn one after the other, in the order in which
  the dict literal lists them. The attributes are assigned on a fresh instance.
\<close>

text \<open>The literal tables of the source, as the dicts handed to \<^verbatim>\<open>pd.DataFrame\<close>.\<close>

definition country_kpis_data :: "(string \<times> column) list" where
  "country_kpis_data =
     [(''country'', StrCol [''USA'', ''Germany'', ''UK'', ''France'', ''Spain'', ''Belgium'', ''Canada'']),
      (''total_rentals'', IntCol [1250, 890, 720, 650, 580, 320, 420]),
      (''avg_rating'', FloatCol [72/10, 78/10, 75/10, 71/10, 79/10, 81/10, 73/10]),
      (''total_revenue'', IntCol [8750, 6230, 5040, 4550, 4060, 2240, 2940])]"

definition genre_performance_data :: "(string \<times> column) list" where
  "genre_performance_data =
     [(''genre'', StrCol [''Drama'', ''Comedy'', ''Action'', ''Horror'', ''Romance'', ''Thriller'', ''Sci-Fi'']),
      (''avg_rating'', FloatCol [81/10, 73/10, 69/10, 62/10, 78/10, 71/10, 75/10]),
      (''total_rentals'', IntCol [980, 1200, 1100, 450, 680, 720, 380]),
      (''avg_price'', FloatCol [450/100, 380/100, 420/100, 350/100, 410/100, 400/100, 480/100])]"

definition customer_segments_data :: "(string \<times> column) list" where
  "customer_segments_data =
     [(''segment'', StrCol [''High Value (10+ rentals)'', ''Regular (5-9 rentals)'',
                           ''Casual (1-4 rentals)'', ''At Risk (rating < 4)'']),
      (''customer_count'', IntCol [245, 680, 1420, 180]),
      (''avg_revenue_per_customer'', FloatCol [4520/100, 2850/100, 1280/100, 1560/100])]"

definition actor_analysis_data :: "(string \<times> column) list" where
  "actor_analysis_data =
     [(''nationality'', StrCol [''USA'', ''UK'', ''Germany'', ''France'', ''Spain'', ''Italy'']),
      (''male_actors'', IntCol [45, 32, 18, 15, 12, 8]),
      (''female_actors'', IntCol [38, 28, 16, 13, 11, 7]),
      (''avg_rating'', FloatCol [71/10, 76/10, 78/10, 73/10, 79/10, 74/10])]"

definition monthly_trends_data ::
  "date list \<Rightarrow> rat list \<Rightarrow> rat list \<Rightarrow> rat list \<Rightarrow> (string \<times> column) list" where
  "monthly_trends_data months rentals revenue new_customers =
     [(''month'', DateCol months),
      (''rentals'', IntCol (map astype_int rentals)),
      (''revenue'', IntCol (map astype_int revenue)),
      (''new_customers'', IntCol (map astype_int new_customers))]"

definition setup_sample_data :: "'g np_random \<Rightarrow> 'g world \<Rightarrow> (visualizer \<times> 'g world) option" where
  "setup_sample_data lib w = do {
     ck \<leftarrow> DataFrame country_kpis_data;
     gp \<leftarrow> DataFrame genre_performance_data;
     cs \<leftarrow> DataFrame customer_segments_data;
     let months = date_range_M (Date 2018 1 1) (Date 2019 12 31);
     let g0 = seed_state lib 42;
     let (rentals, g1) = normal lib 800 150 (length months) g0;
     let (revenue, g2) = normal lib 5600 1050 (length months) g1;
     let (new_customers, g3) = normal lib 45 12 (length months) g2;
     mt \<leftarrow> DataFrame (monthly_trends_data months rentals revenue new_customers);
     aa \<leftarrow> DataFrame actor_analysis_data;
     Some (\<lparr>country_kpis = ck, genre_performance = gp, customer_segments = cs,
            monthly_trends = mt, actor_analysis = aa\<rparr>,
           w\<lparr>rng := g3\<rparr>)
   }"

definition exists_path :: "string \<Rightarrow> 'g world \<Rightarrow> bool" where
  "exists_path p w = (p \<in> dirs w \<or> p \<in> dom (files w))"

definition makedirs :: "string \<Rightarrow> 'g world \<Rightarrow> 'g world" where
  "makedirs p w = w\<lparr>dirs := insert p (dirs w)\<rparr>"

definition create_output_directory :: "'g world \<Rightarrow> 'g world" where
  "create_output_directory w =
     (if \<not> exists_path ''visualizations'' w then makedirs ''visualizations'' w else w)"

definition init :: "'g np_random \<Rightarrow> 'g world \<Rightarrow> (visualizer \<times> 'g world) option" where
  "init lib w = do {
     (v, w) \<leftarrow> setup_sample_data lib w;
     let w = create_output_directory w;
     Some (v, w)
   }"

section \<open>Derived statistics\<close>

subsection \<open>Min-max normalization\<close>

text \<open>\<^verbatim>\<open>(m - m.min()) / (m.max() - m.min())\<close>, column by column.\<close>

definition min_max_normalize :: "rat list \<Rightarrow> float64 list" where
  "min_max_normalize xs =
     (if xs = [] then []
      else map (\<lambda>x. fdiv (x - Min (set xs)) (Max (set xs) - Min (set xs))) xs)"

subsection \<open>Descending ranks\<close>

text \<open>
  \<^verbatim>\<open>DataFrame.rank(ascending=False)\<close> with pandas' default method \<^verbatim>\<open>average\<close>: the
  values are put in descending order and numbered from 1; a value gets the sum of the
  numbers its occurrences hold, divided by how many they are.
\<close>

definition positions :: "rat \<Rightarrow> rat list \<Rightarrow> nat list" where
  "positions x ys = map Suc (filter (\<lambda>i. ys ! i = x) [0..<length ys])"

definition rank_desc :: "rat list \<Rightarrow> rat list" where
  "rank_desc xs =
     (let ys = rev (sort xs)
      in map (\<lambda>x. of_nat (sum_list (positions x ys)) / of_nat (length (positions x ys))) xs)"

subsection \<open>Linear trend\<close>

text \<open>
  \<^verbatim>\<open>np.polyfit(x, y, 1)\<close>, as the solution of the normal equations: the slope first, then
  the intercept. numpy raises \<^verbatim>\<open>TypeError\<close> on an empty \<open>x\<close> and on vectors of
  different lengths. When all abscissae coincide the system is rank deficient; numpy then
  warns and answers with a minimum-norm solution that this model does not describe: the
  model stops there with \<open>None\<close> as well.
\<close>

definition polyfit1 :: "rat list \<Rightarrow> rat list \<Rightarrow> (rat \<times> rat) option" where
  "polyfit1 xs ys =
     (let n = of_nat (length xs);
          sx = sum_list xs;
          sy = sum_list ys;
          sxx = sum_list (map (\<lambda>x. x * x) xs);
          sxy = sum_list (map2 (\<lambda>x y. x * y) xs ys);
          d = n * sxx - sx * sx
      in if xs = [] \<or> length xs \<noteq> length ys then None
         else if d = 0 then None
         else Some ((n * sxy - sx * sy) / d, (sy * sxx - sx * sxy) / d))"

text \<open>\<^verbatim>\<open>np.poly1d(z)\<close> applied to a vector.\<close>

definition poly1d :: "rat \<times> rat \<Rightarrow> rat list \<Rightarrow> rat list" where
  "poly1d z xs = map (\<lambda>x. fst z * x + snd z) xs"

text \<open>The sum of squared residuals of the line \<open>a * x + b\<close>.\<close>

definition sq_residuals :: "rat \<Rightarrow> rat \<Rightarrow> rat list \<Rightarrow> rat list \<Rightarrow> rat" where
  "sq_residuals a b xs ys = sum_list (map2 (\<lambda>x y. (y - (a * x + b)) * (y - (a * x + b))) xs ys)"

subsection \<open>Elementwise arithmetic and means\<close>

definition series_mul :: "rat list \<Rightarrow> rat list \<Rightarrow> rat list" where
  "series_mul xs ys = map2 (\<lambda>x y. x * y) xs ys"

definition series_div :: "rat list \<Rightarrow> rat list \<Rightarrow> float64 list" where
  "series_div xs ys = map2 fdiv xs ys"

definition mean :: "rat list \<Rightarrow> float64" where
  "mean xs = (if xs = [] then NaN else Finite (sum_list xs / of_nat (length xs)))"

section \<open>Drawing and printing\<close>

subsection \<open>Strings\<close>

fun splitlines :: "string \<Rightarrow> string \<Rightarrow> string list" where
  "splitlines acc [] = [rev acc]"
| "splitlines acc (c # cs) =
     (if c = CHR 0x0A then rev acc # splitlines [] cs else splitlines (c # acc) cs)"

text \<open>\<^verbatim>\<open>print(s)\<close>: the text and a line end; a line feed inside \<open>s\<close> starts a new line.\<close>

definition print :: "string \<Rightarrow> 'g world \<Rightarrow> 'g world" where
  "print s w = w\<lparr>console := console w @ splitlines [] s\<rparr>"

fun str_nat :: "nat \<Rightarrow> string" where
  "str_nat n =
     (if n < 10 then [''0123456789'' ! n]
      else str_nat (n div 10) @ [''0123456789'' ! (n mod 10)])"

declare str_nat.simps [simp del]

definition str_int :: "int \<Rightarrow> string" where
  "str_int i = (if i < 0 then CHR ''-'' # str_nat (nat (- i)) else str_nat (nat i))"

text \<open>Python's \<^verbatim>\<open>int(x)\<close> on a float truncates toward zero.\<close>

definition py_int :: "rat \<Rightarrow> int" where
  "py_int r = (if r < 0 then \<lceil>r\<rceil> else \<lfloor>r\<rfloor>)"

text \<open>\<^verbatim>\<open>s.replace(' ', '\n')\<close> and \<^verbatim>\<open>s.split(' ')[0]\<close>.\<close>

definition replace_space_newline :: "string \<Rightarrow> string" where
  "replace_space_newline s = map (\<lambda>c. if c = CHR '' '' then CHR 0x0A else c) s"

definition first_word :: "string \<Rightarrow> string" where
  "first_word s = takeWhile (\<lambda>c. c \<noteq> CHR '' '') s"

subsection \<open>pyplot\<close>

definition new_figure :: "nat \<Rightarrow> figure" where
  "new_figure n = \<lparr>suptitle = [], axes = replicate n []\<rparr>"

text \<open>\<^verbatim>\<open>plt.subplots(r, c)\<close> opens a figure with \<open>r * c\<close> axes, makes it current and
  returns it (here: its position among the open figures).\<close>

definition subplots :: "nat \<Rightarrow> nat \<Rightarrow> 'g world \<Rightarrow> nat \<times> 'g world" where
  "subplots r c w = (length (figs w), w\<lparr>figs := figs w @ [new_figure (r * c)]\<rparr>)"

definition on_figure :: "nat \<Rightarrow> (figure \<Rightarrow> figure) \<Rightarrow> 'g world \<Rightarrow> 'g world" where
  "on_figure fig f w = w\<lparr>figs := (figs w)[fig := f (figs w ! fig)]\<rparr>"

definition draw :: "nat \<Rightarrow> artist \<Rightarrow> figure \<Rightarrow> figure" where
  "draw k a f = f\<lparr>axes := (axes f)[k := axes f ! k @ [a]]\<rparr>"

text \<open>A method call on the \<open>k\<close>-th axes of figure \<open>fig\<close> (\<open>ax1\<close> is number 0).\<close>

definition ax :: "nat \<Rightarrow> nat \<Rightarrow> artist \<Rightarrow> 'g world \<Rightarrow> 'g world" where
  "ax fig k a w = on_figure fig (draw k a) w"

definition set_suptitle :: "nat \<Rightarrow> string \<Rightarrow> 'g world \<Rightarrow> 'g world" where
  "set_suptitle fig s w = on_figure fig (\<lambda>f. f\<lparr>suptitle := s\<rparr>) w"

text \<open>\<^verbatim>\<open>plt.gcf()\<close>: the current figure; a new one is opened when none is.\<close>

definition gcf :: "'g world \<Rightarrow> figure \<times> 'g world" where
  "gcf w = (if figs w = [] then (new_figure 0, w\<lparr>figs := [new_figure 0]\<rparr>)
            else (last (figs w), w))"

text \<open>\<^verbatim>\<open>plt.savefig(path)\<close> writes the current figure.\<close>

definition savefig :: "string \<Rightarrow> 'g world \<Rightarrow> 'g world" where
  "savefig path w = (let (f, w') = gcf w in w'\<lparr>files := (files w')(path \<mapsto> PNG f)\<rparr>)"

text \<open>The rectangles \<^verbatim>\<open>ax.bar\<close> returns, as (x, width, height): bar \<open>i\<close> is centred at
  \<open>i\<close> and has matplotlib's default width 0.8.\<close>

definition bar_rects :: "rat list \<Rightarrow> (rat \<times> rat \<times> rat) list" where
  "bar_rects heights = map (\<lambda>(i, h). (of_nat i - 4/10, 8/10, h)) (enumerate 0 heights)"

text \<open>\<^verbatim>\<open>series.iloc[i]\<close> raises \<^verbatim>\<open>IndexError\<close> out of range.\<close>

definition iloc :: "'a list \<Rightarrow> nat \<Rightarrow> 'a option" where
  "iloc xs i = (if i < length xs then Some (xs ! i) else None)"

text \<open>A \<^verbatim>\<open>for\<close> loop whose body may raise.\<close>

fun for_each :: "'a list \<Rightarrow> ('a \<Rightarrow> 's \<Rightarrow> 's option) \<Rightarrow> 's \<Rightarrow> 's option" where
  "for_each [] body s = Some s"
| "for_each (x # xs) body s = body x s \<bind> for_each xs body"

section \<open>The report generators\<close>

text \<open>
  Each generator takes the instance and the world and returns both, as the method leaves
  them. The panels \<open>ax1\<close>, \<open>ax2\<close>, \<open>ax3\<close>, \<open>ax4\<close> of the source are the axes 0 to 3 of
  the figure that \<open>subplots\<close> opened.
\<close>

definition create_country_performance_dashboard ::
  "visualizer \<Rightarrow> 'g world \<Rightarrow> (visualizer \<times> 'g world) option" where
  "create_country_performance_dashboard v w = do {
     let (fig, w) = subplots 2 2 w;
     let w = set_suptitle fig ''Country Performance Dashboard'' w;
     country \<leftarrow> strings (country_kpis v) ''country'';
     total_revenue \<leftarrow> numeric (country_kpis v) ''total_revenue'';
     let bars = bar_rects total_revenue;
     let w = ax fig 0 (Bar (Cat country) (map Finite total_revenue)) w;
     let w = ax fig 0 (Set_title ''Total Revenue by Country'') w;
     let w = ax fig 0 (Set_ylabel ''Revenue ($)'') w;
     let w = ax fig 0 Tick_params w;
     let w = fold (\<lambda>(x, width, height).
                ax fig 0 (Text (x + width / 2) (height + 50) (Fmt ''${:,.0f}'' height))) bars w;
     avg_rating \<leftarrow> numeric (country_kpis v) ''avg_rating'';
     let w = ax fig 1 (Barh (Cat country) (map Finite avg_rating)) w;
     let w = ax fig 1 (Set_title ''Average Rating by Country'') w;
     let w = ax fig 1 (Set_xlabel ''Average Rating'') w;
     let w = ax fig 1 (Set_xlim (65/10) (85/10)) w;
     total_rentals \<leftarrow> numeric (country_kpis v) ''total_rentals'';
     let w = ax fig 2 (Scatter (map Finite total_rentals) (map Finite total_revenue) [Finite 200]) w;
     let w = ax fig 2 (Set_title ''Rentals vs Revenue by Country'') w;
     let w = ax fig 2 (Set_xlabel ''Total Rentals'') w;
     let w = ax fig 2 (Set_ylabel ''Total Revenue ($)'') w;
     w \<leftarrow> for_each (enumerate 0 country) (\<lambda>(i, c) w. do {
            x \<leftarrow> iloc total_rentals i;
            y \<leftarrow> iloc total_revenue i;
            Some (ax fig 2 (Annotate c x y) w)
          }) w;
     let performance_matrix = [total_rentals, avg_rating, total_revenue];
     let normalized_matrix = map min_max_normalize performance_matrix;
     let w = ax fig 3 (Imshow normalized_matrix) w;
     let w = ax fig 3 (Set_title ''Performance Heatmap (Normalized)'') w;
     let w = ax fig 3 (Set_xticks [0..<length country]) w;
     let w = ax fig 3 (Set_xticklabels country) w;
     let w = ax fig 3 (Set_yticks [0..<length normalized_matrix]) w;
     let w = ax fig 3 (Set_yticklabels [''Rentals'', ''Avg Rating'', ''Revenue'']) w;
     let w = savefig ''visualizations/country_performance_dashboard.png'' w;
     Some (v, w)
   }"

definition create_genre_analysis ::
  "visualizer \<Rightarrow> 'g world \<Rightarrow> (visualizer \<times> 'g world) option" where
  "create_genre_analysis v w = do {
     let (fig, w) = subplots 2 2 w;
     let w = set_suptitle fig ''Genre Performance Analysis'' w;
     avg_price \<leftarrow> numeric (genre_performance v) ''avg_price'';
     let bubble_sizes = map (\<lambda>p. p * 50) avg_price;
     avg_rating \<leftarrow> numeric (genre_performance v) ''avg_rating'';
     total_rentals \<leftarrow> numeric (genre_performance v) ''total_rentals'';
     let w = ax fig 0 (Scatter (map Finite avg_rating) (map Finite total_rentals)
                         (map Finite bubble_sizes)) w;
     let w = ax fig 0 (Set_title ''Genre Performance: Rating vs Popularity'') w;
     let w = ax fig 0 (Set_xlabel ''Average Rating'') w;
     let w = ax fig 0 (Set_ylabel ''Total Rentals'') w;
     genre \<leftarrow> strings (genre_performance v) ''genre'';
     w \<leftarrow> for_each (enumerate 0 genre) (\<lambda>(i, g) w. do {
            x \<leftarrow> iloc avg_rating i;
            y \<leftarrow> iloc total_rentals i;
            Some (ax fig 0 (Annotate g x y) w)
          }) w;
     let revenue_potential = series_mul total_rentals avg_price;
     let w = ax fig 1 (Bar (Cat genre) (map Finite revenue_potential)) w;
     let w = ax fig 1 (Set_title ''Revenue Potential by Genre'') w;
     let w = ax fig 1 (Set_ylabel ''Revenue Potential ($)'') w;
     let w = ax fig 1 Tick_params w;
     let w = ax fig 2 (Scatter (map Finite avg_price) (map Finite avg_rating) [Finite 100]) w;
     let w = ax fig 2 (Set_title ''Pricing vs Quality'') w;
     let w = ax fig 2 (Set_xlabel ''Average Price ($)'') w;
     let w = ax fig 2 (Set_ylabel ''Average Rating'') w;
     z \<leftarrow> polyfit1 avg_price avg_rating;
     let p = poly1d z;
     let w = ax fig 2 (Plot (Num (map Finite avg_price)) (map Finite (p avg_price))) w;
     let genre_metrics = [avg_rating, total_rentals, avg_price];
     let rankings = map rank_desc genre_metrics;
     let w = ax fig 3 (Imshow (map (map Finite) rankings)) w;
     let w = ax fig 3 (Set_title ''Genre Rankings (1 = Best)'') w;
     let w = ax fig 3 (Set_xticks [0..<length genre]) w;
     let w = ax fig 3 (Set_xticklabels genre) w;
     let w = ax fig 3 (Set_yticks [0..<length rankings]) w;
     let w = ax fig 3 (Set_yticklabels [''Rating Rank'', ''Popularity Rank'', ''Price Rank'']) w;
     w \<leftarrow> for_each [0..<length rankings] (\<lambda>i w.
            for_each [0..<length genre] (\<lambda>j w. do {
              column \<leftarrow> iloc rankings i;
              r \<leftarrow> iloc column j;
              Some (ax fig 3 (Text (of_nat j) (of_nat i) (Lit (str_int (py_int r)))) w)
            }) w) w;
     let w = savefig ''visualizations/genre_analysis.png'' w;
     Some (v, w)
   }"

definition create_customer_segmentation_viz ::
  "visualizer \<Rightarrow> 'g world \<Rightarrow> (visualizer \<times> 'g world) option" where
  "create_customer_segmentation_viz v w = do {
     let (fig, w) = subplots 2 2 w;
     let w = set_suptitle fig ''Customer Segmentation Analysis'' w;
     customer_count \<leftarrow> numeric (customer_segments v) ''customer_count'';
     segment \<leftarrow> strings (customer_segments v) ''segment'';
     let w = ax fig 0 (Pie (map Finite customer_count) segment) w;
     let w = ax fig 0 (Set_title ''Customer Distribution by Segment'') w;
     avg_revenue \<leftarrow> numeric (customer_segments v) ''avg_revenue_per_customer'';
     let bars = bar_rects avg_revenue;
     let w = ax fig 1 (Bar (Num (map (Finite \<circ> of_nat) [0..<len_df (customer_segments v)]))
                         (map Finite avg_revenue)) w;
     let w = ax fig 1 (Set_title ''Average Revenue per Customer by Segment'') w;
     let w = ax fig 1 (Set_ylabel ''Average Revenue ($)'') w;
     let w = ax fig 1 (Set_xticks [0..<len_df (customer_segments v)]) w;
     let w = ax fig 1 (Set_xticklabels (map replace_space_newline segment)) w;
     let w = fold (\<lambda>(x, width, height).
                ax fig 1 (Text (x + width / 2) (height + 5/10) (Fmt ''${:.2f}'' height))) bars w;
     let total_revenue_impact = series_mul customer_count avg_revenue;
     let w = ax fig 2 (Barh (Cat segment) (map Finite total_revenue_impact)) w;
     let w = ax fig 2 (Set_title ''Total Revenue Impact by Segment'') w;
     let w = ax fig 2 (Set_xlabel ''Total Revenue Impact ($)'') w;
     let w = ax fig 3 (Scatter (map Finite customer_count) (map Finite avg_revenue) [Finite 300]) w;
     let w = ax fig 3 (Set_title ''Segment Size vs Value'') w;
     let w = ax fig 3 (Set_xlabel ''Number of Customers'') w;
     let w = ax fig 3 (Set_ylabel ''Average Revenue per Customer ($)'') w;
     let w = ax fig 3 (Axhline (mean avg_revenue)) w;
     let w = ax fig 3 (Axvline (mean customer_count)) w;
     w \<leftarrow> for_each (enumerate 0 segment) (\<lambda>(i, s) w. do {
            x \<leftarrow> iloc customer_count i;
            y \<leftarrow> iloc avg_revenue i;
            Some (ax fig 3 (Annotate (first_word s) x y) w)
          }) w;
     let w = savefig ''visualizations/customer_segmentation.png'' w;
     Some (v, w)
   }"

definition create_temporal_analysis ::
  "visualizer \<Rightarrow> 'g world \<Rightarrow> (visualizer \<times> 'g world) option" where
  "create_temporal_analysis v w = do {
     let (fig, w) = subplots 2 2 w;
     let w = set_suptitle fig ''Temporal Analysis - Business Trends'' w;
     month \<leftarrow> dates (monthly_trends v) ''month'';
     rentals \<leftarrow> numeric (monthly_trends v) ''rentals'';
     let w = ax fig 0 (Plot (Dates month) (map Finite rentals)) w;
     let w = ax fig 0 (Set_title ''Monthly Rental Trends'') w;
     let w = ax fig 0 (Set_ylabel ''Number of Rentals'') w;
     let w = ax fig 0 Tick_params w;
     let w = ax fig 0 Grid w;
     let x_numeric = map of_nat [0..<len_df (monthly_trends v)];
     z \<leftarrow> polyfit1 x_numeric rentals;
     let p = poly1d z;
     let w = ax fig 0 (Plot (Dates month) (map Finite (p x_numeric))) w;
     let w = ax fig 0 Legend w;
     revenue \<leftarrow> numeric (monthly_trends v) ''revenue'';
     let w = ax fig 1 (Plot (Dates month) (map Finite revenue)) w;
     let w = ax fig 1 (Set_title ''Monthly Revenue Trends'') w;
     let w = ax fig 1 (Set_ylabel ''Revenue ($)'') w;
     let w = ax fig 1 Tick_params w;
     let w = ax fig 1 Grid w;
     new_customers \<leftarrow> numeric (monthly_trends v) ''new_customers'';
     let w = ax fig 2 (Bar (Dates month) (map Finite new_customers)) w;
     let w = ax fig 2 (Set_title ''New Customer Acquisition'') w;
     let w = ax fig 2 (Set_ylabel ''New Customers'') w;
     let w = ax fig 2 Tick_params w;
     let revenue_per_rental = series_div revenue rentals;
     let w = ax fig 3 (Plot (Dates month) revenue_per_rental) w;
     let w = ax fig 3 (Set_title ''Revenue Efficiency (Revenue per Rental)'') w;
     let w = ax fig 3 (Set_ylabel ''Revenue per Rental ($)'') w;
     let w = ax fig 3 Tick_params w;
     let w = ax fig 3 Grid w;
     let w = savefig ''visualizations/temporal_analysis.png'' w;
     Some (v, w)
   }"

subsection \<open>The interactive dashboard\<close>

definition make_subplots :: "string list \<Rightarrow> plotly_figure" where
  "make_subplots titles =
     \<lparr>subplot_titles = titles, traces = [], title_text = [], yaxis_titles = []\<rparr>"

definition add_trace :: "trace \<Rightarrow> nat \<Rightarrow> nat \<Rightarrow> bool \<Rightarrow> plotly_figure \<Rightarrow> plotly_figure" where
  "add_trace t row col secondary_y fig = fig\<lparr>traces := traces fig @ [(t, row, col, secondary_y)]\<rparr>"

definition update_yaxes :: "string \<Rightarrow> nat \<Rightarrow> nat \<Rightarrow> bool \<Rightarrow> plotly_figure \<Rightarrow> plotly_figure" where
  "update_yaxes t row col secondary_y fig =
     fig\<lparr>yaxis_titles := yaxis_titles fig @ [(row, col, secondary_y, t)]\<rparr>"

definition write_html :: "plotly_figure \<Rightarrow> string \<Rightarrow> 'g world \<Rightarrow> 'g world" where
  "write_html fig path w = w\<lparr>files := (files w)(path \<mapsto> HTML fig)\<rparr>"

definition create_interactive_dashboard ::
  "visualizer \<Rightarrow> 'g world \<Rightarrow> (plotly_figure \<times> visualizer \<times> 'g world) option" where
  "create_interactive_dashboard v w = do {
     let fig = make_subplots [''Country Revenue Performance'', ''Genre Rating Distribution'',
                              ''Customer Segments'', ''Monthly Trends''];
     country \<leftarrow> strings (country_kpis v) ''country'';
     total_revenue \<leftarrow> numeric (country_kpis v) ''total_revenue'';
     let fig = add_trace (GoBar country (map Finite total_revenue) ''Revenue'') 1 1 False fig;
     genre \<leftarrow> strings (genre_performance v) ''genre'';
     avg_rating \<leftarrow> numeric (genre_performance v) ''avg_rating'';
     let fig = add_trace (GoBar genre (map Finite avg_rating) ''Avg Rating'') 1 2 False fig;
     segment \<leftarrow> strings (customer_segments v) ''segment'';
     customer_count \<leftarrow> numeric (customer_segments v) ''customer_count'';
     let fig = add_trace (GoPie segment (map Finite customer_count) ''Customer Segments'') 2 1 False fig;
     month \<leftarrow> dates (monthly_trends v) ''month'';
     rentals \<leftarrow> numeric (monthly_trends v) ''rentals'';
     let fig = add_trace (GoScatter month (map Finite rentals) ''Rentals'') 2 2 False fig;
     revenue \<leftarrow> numeric (monthly_trends v) ''revenue'';
     let fig = add_trace (GoScatter month (map Finite revenue) ''Revenue'') 2 2 True fig;
     let fig = fig\<lparr>title_text := ''MovieNow Business Intelligence Dashboard''\<rparr>;
     let fig = update_yaxes ''Rentals'' 2 2 False fig;
     let fig = update_yaxes ''Revenue ($)'' 2 2 True fig;
     let w = write_html fig ''visualizations/interactive_dashboard.html'' w;
     let w = print (''Interactive dashboard saved as '' @ [CHR 0x27]
                    @ ''visualizations/interactive_dashboard.html'' @ [CHR 0x27]) w;
     Some (fig, v, w)
   }"

section \<open>The orchestrator and the program\<close>

definition generate_all_visualizations ::
  "visualizer \<Rightarrow> 'g world \<Rightarrow> (visualizer \<times> 'g world) option" where
  "generate_all_visualizations v w = do {
     let w = print ''Generating MovieNow Business Intelligence Visualizations...'' w;
     let w = print ''1. Creating Country Performance Dashboard...'' w;
     (v, w) \<leftarrow> create_country_performance_dashboard v w;
     let w = print ''2. Creating Genre Analysis...'' w;
     (v, w) \<leftarrow> create_genre_analysis v w;
     let w = print ''3. Creating Customer Segmentation...'' w;
     (v, w) \<leftarrow> create_customer_segmentation_viz v w;
     let w = print ''4. Creating Temporal Analysis...'' w;
     (v, w) \<leftarrow> create_temporal_analysis v w;
     let w = print ''5. Creating Interactive Dashboard...'' w;
     (fig, v, w) \<leftarrow> create_interactive_dashboard v w;
     let w = print (CHR 0x0A # ''All visualizations generated successfully!'') w;
     let w = print (''Files saved in '' @ [CHR 0x27] @ ''visualizations/'' @ [CHR 0x27]
                    @ '' directory:'') w;
     let w = print ''- country_performance_dashboard.png'' w;
     let w = print ''- genre_analysis.png'' w;
     let w = print ''- customer_segmentation.png'' w;
     let w = print ''- temporal_analysis.png'' w;
     let w = print ''- interactive_dashboard.html'' w;
     Some (v, w)
   }"

text \<open>\<^verbatim>\<open>plt.style.use(name)\<close> raises \<^verbatim>\<open>OSError\<close> for a style that is not installed;
  \<^verbatim>\<open>default\<close> always is.\<close>

definition style_use :: "string \<Rightarrow> 'g world \<Rightarrow> 'g world option" where
  "style_use name w =
     (if name = ''default'' \<or> name \<in> set (available w) then Some (w\<lparr>style := name\<rparr>) else None)"

text \<open>The statements the module runs when it is loaded: the choice of a style, with its
  two fallbacks.\<close>

definition module_init :: "'g world \<Rightarrow> 'g world option" where
  "module_init w =
     (case style_use ''seaborn-v0_8'' w of
        Some w' \<Rightarrow> Some w'
      | None \<Rightarrow>
          (case style_use ''seaborn'' w of
             Some w' \<Rightarrow> Some w'
           | None \<Rightarrow> do {
               w' \<leftarrow> style_use ''default'' w;
               Some (print (''Note: Using default matplotlib style. For better visuals, ''
                            @ ''consider updating matplotlib/seaborn.'') w')
             }))"

definition check_available_styles :: "'g world \<Rightarrow> 'g world" where
  "check_available_styles w =
     fold (\<lambda>style w. print (''  - '' @ style) w) (available w)
       (print ''Available matplotlib styles:'' w)"

definition main :: "'g np_random \<Rightarrow> 'g world \<Rightarrow> (visualizer \<times> 'g world) option" where
  "main lib w = do {
     let w = print ''Checking matplotlib configuration...'' w;
     let w = check_available_styles w;
     let w = print (CHR 0x0A # replicate 50 CHR ''='') w;
     (visualizer, w) \<leftarrow> init lib w;
     (visualizer, w) \<leftarrow> generate_all_visualizations visualizer w;
     let w = print (CHR 0x0A # replicate 50 CHR ''='') w;
     let w = print ''MOVIENOW BUSINESS INTELLIGENCE - SUMMARY STATS'' w;
     let w = print (replicate 50 CHR ''='') w;
     let w = print (''Countries Analyzed: '' @ str_nat (len_df (country_kpis visualizer))) w;
     let w = print (''Genres Analyzed: '' @ str_nat (len_df (genre_performance visualizer))) w;
     let w = print (''Customer Segments: '' @ str_nat (len_df (customer_segments visualizer))) w;
     let w = print (''Time Period: '' @ str_nat (len_df (monthly_trends visualizer)) @ '' months'') w;
     let w = print (replicate 50 CHR ''='') w;
     Some (visualizer, w)
   }"

text \<open>Running the file: the module's own statements, then the main block.\<close>

definition program :: "'g np_random \<Rightarrow> 'g world \<Rightarrow> (visualizer \<times> 'g world) option" where
  "program lib w = module_init w \<bind> main lib"

section \<open>Running the model on concrete inputs\<close>

text \<open>
  A small deterministic generator and an empty world, to evaluate the model on: the
  generator counts its draws, and the draws cycle through seven values around zero.
\<close>

definition example_random :: "nat np_random" where
  "example_random =
     \<lparr>seed_state = (\<lambda>n. n), gauss = (\<lambda>g. (of_nat (g mod 7) / 2 - 3 / 2, Suc g))\<rparr>"

definition example_world :: "nat world" where
  "example_world =
     \<lparr>rng = 0, figs = [], style = [], available = [], dirs = {}, files = Map.empty,
      console = []\<rparr>"
section \<open>Facts about the builder\<close>

lemma months_eval:
  "date_range_M (Date 2018 1 1) (Date 2019 12 31) =
    [Date 2018 1 31, Date 2018 2 28, Date 2018 3 31, Date 2018 4 30, Date 2018 5 31,
     Date 2018 6 30, Date 2018 7 31, Date 2018 8 31, Date 2018 9 30, Date 2018 10 31,
     Date 2018 11 30, Date 2018 12 31, Date 2019 1 31, Date 2019 2 28, Date 2019 3 31,
     Date 2019 4 30, Date 2019 5 31, Date 2019 6 30, Date 2019 7 31, Date 2019 8 31,
     Date 2019 9 30, Date 2019 10 31, Date 2019 11 30, Date 2019 12 31]"
  by code_simp

lemma length_months: "length (date_range_M (Date 2018 1 1) (Date 2019 12 31)) = 24"
  by (simp only: months_eval) simp

lemma length_normal [simp]: "length (fst (normal lib loc scale n g)) = n"
  by (induction n arbitrary: g) (auto simp: split_def Let_def)

text \<open>The builder never fails, and what it builds is the following, in every world.\<close>

lemma setup_eq:
  "setup_sample_data lib w =
     Some (\<lparr>country_kpis = country_kpis_data,
            genre_performance = genre_performance_data,
            customer_segments = customer_segments_data,
            monthly_trends =
              monthly_trends_data (date_range_M (Date 2018 1 1) (Date 2019 12 31))
                (fst (normal lib 800 150 24 (seed_state lib 42)))
                (fst (normal lib 5600 1050 24 (snd (normal lib 800 150 24 (seed_state lib 42)))))
                (fst (normal lib 45 12 24 (snd (normal lib 5600 1050 24
                   (snd (normal lib 800 150 24 (seed_state lib 42))))))),
            actor_analysis = actor_analysis_data\<rparr>,
      w\<lparr>rng := snd (normal lib 45 12 24
            (snd (normal lib 5600 1050 24 (snd (normal lib 800 150 24 (seed_state lib 42))))))\<rparr>)"
  by (simp add: setup_sample_data_def DataFrame_def split_def Let_def length_months[simplified]
      country_kpis_data_def genre_performance_data_def customer_segments_data_def
      monthly_trends_data_def actor_analysis_data_def)

section \<open>Facts about the statistics\<close>

subsection \<open>Min-max normalization\<close>

lemma min_max_normalize_nth:
  "i < length xs \<Longrightarrow>
     min_max_normalize xs ! i = fdiv (xs ! i - Min (set xs)) (Max (set xs) - Min (set xs))"
  by (auto simp: min_max_normalize_def)

lemma min_max_normalize_cases:
  assumes "i < length xs"
  shows "if \<forall>x\<in>set xs. x = xs ! i then min_max_normalize xs ! i = NaN
         else (\<exists>r. min_max_normalize xs ! i = Finite r \<and> 0 \<le> r \<and> r \<le> 1)
            \<and> (xs ! i = Min (set xs) \<longrightarrow> min_max_normalize xs ! i = Finite 0)
            \<and> (xs ! i = Max (set xs) \<longrightarrow> min_max_normalize xs ! i = Finite 1)"
proof -
  let ?lo = "Min (set xs)" and ?hi = "Max (set xs)"
  have mem: "xs ! i \<in> set xs" using assms by simp
  have fin: "finite (set xs)" and ne: "set xs \<noteq> {}" using mem by auto
  have lo: "?lo \<le> xs ! i" and hi: "xs ! i \<le> ?hi" using mem by simp_all
  show ?thesis
  proof (cases "\<forall>x\<in>set xs. x = xs ! i")
    case True
    have "?lo \<in> set xs" using fin ne by simp
    then have "?lo = xs ! i" using True by blast
    moreover have "?hi \<in> set xs" using fin ne by simp
    then have "?hi = xs ! i" using True by blast
    ultimately show ?thesis using True assms by (simp add: min_max_normalize_nth fdiv_def)
  next
    case False
    then obtain x where x: "x \<in> set xs" "x \<noteq> xs ! i" by blast
    have "?lo \<le> x" "x \<le> ?hi" using x by simp_all
    then have lt: "?lo < ?hi" using x lo hi by linarith
    have eq: "min_max_normalize xs ! i = Finite ((xs ! i - ?lo) / (?hi - ?lo))"
      using lt assms by (simp add: min_max_normalize_nth fdiv_def)
    have "0 \<le> (xs ! i - ?lo) / (?hi - ?lo)" using lo lt by simp
    moreover have "(xs ! i - ?lo) / (?hi - ?lo) \<le> 1" using hi lt by simp
    ultimately show ?thesis using False eq lt by auto
  qed
qed

subsection \<open>The least-squares line\<close>

lemma sq_residuals_expand:
  "length xs = length ys \<Longrightarrow>
   sq_residuals a b xs ys =
     sum_list (map (\<lambda>y. y * y) ys) - 2 * a * sum_list (map2 (\<lambda>x y. x * y) xs ys)
     - 2 * b * sum_list ys + a * a * sum_list (map (\<lambda>x. x * x) xs)
     + 2 * a * b * sum_list xs + of_nat (length xs) * (b * b)"
  unfolding sq_residuals_def
  by (induction xs ys rule: list_induct2) (simp_all add: algebra_simps)

lemma quadratic_form_nonneg:
  "0 \<le> p * p * sum_list (map (\<lambda>x. x * x) xs) + 2 * p * q * sum_list xs
        + of_nat (length xs) * (q * q :: rat)"
proof -
  have "sum_list (map (\<lambda>x. (p * x + q) * (p * x + q)) xs)
      = p * p * sum_list (map (\<lambda>x. x * x) xs) + 2 * p * q * sum_list xs
        + of_nat (length xs) * (q * q)"
    by (induction xs) (simp_all add: algebra_simps)
  moreover have "0 \<le> sum_list (map (\<lambda>x. (p * x + q) * (p * x + q)) xs)"
    by (rule sum_list_nonneg) auto
  ultimately show ?thesis by simp
qed

lemma polyfit1_least_squares:
  assumes "polyfit1 xs ys = Some z"
  shows "sq_residuals (fst z) (snd z) xs ys \<le> sq_residuals a b xs ys"
proof -
  define n :: rat where "n = of_nat (length xs)"
  define sx where "sx = sum_list xs"
  define sy where "sy = sum_list ys"
  define sxx where "sxx = sum_list (map (\<lambda>x. x * x) xs)"
  define sxy where "sxy = sum_list (map2 (\<lambda>x y. x * y) xs ys)"
  define syy where "syy = sum_list (map (\<lambda>y. y * y) ys)"
  define d where "d = n * sxx - sx * sx"
  from assms have len: "length xs = length ys" and d: "d \<noteq> 0"
    and z: "z = ((n * sxy - sx * sy) / d, (sy * sxx - sx * sxy) / d)"
    by (auto simp: polyfit1_def Let_def n_def sx_def sy_def sxx_def sxy_def d_def
        split: if_splits)
  define a0 where "a0 = fst z"
  define b0 where "b0 = snd z"
  have "(n * sxy - sx * sy) * sxx + (sy * sxx - sx * sxy) * sx = sxy * d"
    unfolding d_def by (simp add: algebra_simps)
  moreover have "a0 * sxx + b0 * sx
      = ((n * sxy - sx * sy) * sxx + (sy * sxx - sx * sxy) * sx) / d"
    unfolding a0_def b0_def z by (simp add: add_divide_distrib)
  ultimately have ne1: "a0 * sxx + b0 * sx = sxy"
    using d by simp
  have "(n * sxy - sx * sy) * sx + (sy * sxx - sx * sxy) * n = sy * d"
    unfolding d_def by (simp add: algebra_simps)
  moreover have "a0 * sx + b0 * n
      = ((n * sxy - sx * sy) * sx + (sy * sxx - sx * sxy) * n) / d"
    unfolding a0_def b0_def z by (simp add: add_divide_distrib)
  ultimately have ne2: "a0 * sx + b0 * n = sy"
    using d by simp
  have ex: "\<And>a b. sq_residuals a b xs ys =
      syy - 2 * a * sxy - 2 * b * sy + a * a * sxx + 2 * a * b * sx + n * (b * b)"
    using sq_residuals_expand [OF len]
    by (simp add: n_def sx_def sy_def sxx_def sxy_def syy_def)
  have "sq_residuals a b xs ys - sq_residuals a0 b0 xs ys
      = (a - a0) * (a - a0) * sxx + 2 * (a - a0) * (b - b0) * sx + n * ((b - b0) * (b - b0))"
    unfolding ex ne1 [symmetric] ne2 [symmetric] by (simp add: algebra_simps)
  moreover have "0 \<le> (a - a0) * (a - a0) * sxx + 2 * (a - a0) * (b - b0) * sx
      + n * ((b - b0) * (b - b0))"
    unfolding sxx_def sx_def n_def by (rule quadratic_form_nonneg)
  ultimately show ?thesis unfolding a0_def b0_def by linarith
qed

lemma genre_trend_values:
  "polyfit1 [450/100, 380/100, 420/100, 350/100, 410/100, 400/100, 480/100]
            [81/10, 73/10, 69/10, 62/10, 78/10, 71/10, 75/10] = Some (129 / 130, 4127 / 1300)"
  "sq_residuals 0 7 (map of_nat [0..<7]) [81/10, 73/10, 69/10, 62/10, 78/10, 71/10, 75/10]
     < sq_residuals (129 / 130) (4127 / 1300) (map of_nat [0..<7])
         [81/10, 73/10, 69/10, 62/10, 78/10, 71/10, 75/10]"
  by code_simp+

subsection \<open>Descending ranks\<close>

lemma positions_Nil [simp]: "positions x [] = []"
  by (simp add: positions_def)

lemma positions_append:
  "positions x (as @ bs) = positions x as @ map (\<lambda>p. length as + p) (positions x bs)"
proof -
  have "[0..<length as + length bs] = [0..<length as] @ [length as..<length as + length bs]"
    by (rule upt_add_eq_append) simp
  also have "[length as..<length as + length bs] = map (\<lambda>i. i + length as) [0..<length bs]"
    by (simp only: map_add_upt add.commute)
  finally have split: "[0..<length as + length bs]
      = [0..<length as] @ map (\<lambda>i. i + length as) [0..<length bs]" .
  have l: "filter (\<lambda>i. (as @ bs) ! i = x) [0..<length as] = filter (\<lambda>i. as ! i = x) [0..<length as]"
    by (rule filter_cong) (auto simp: nth_append)
  have r: "\<And>i. (as @ bs) ! (i + length as) = bs ! i"
    by (simp add: nth_append)
  show ?thesis
    by (simp add: positions_def split l r filter_map comp_def add.commute)
qed

lemma positions_none: "x \<notin> set ys \<Longrightarrow> positions x ys = []"
  by (auto simp: positions_def filter_empty_conv)

lemma positions_replicate: "positions x (replicate c x) = map Suc [0..<c]"
  by (simp add: positions_def cong: filter_cong)

lemma sorted_desc_split:
  "sorted (rev ys) \<Longrightarrow>
     ys = filter (\<lambda>y. x < y) ys @ filter (\<lambda>y. y = x) ys @ filter (\<lambda>y. y < x) ys"
  for x :: "'a::linorder"
proof (induction ys)
  case Nil
  show ?case by simp
next
  case (Cons y ys)
  then have s: "sorted (rev ys)" and ge: "\<forall>u\<in>set ys. u \<le> y"
    by (auto simp: sorted_append)
  have IH: "ys = filter (\<lambda>y. x < y) ys @ filter (\<lambda>y. y = x) ys @ filter (\<lambda>y. y < x) ys"
    using Cons.IH s by simp
  let ?R = "filter (\<lambda>u. x < u) (y # ys) @ filter (\<lambda>u. u = x) (y # ys)
            @ filter (\<lambda>u. u < x) (y # ys)"
  have A: "\<And>P. (\<forall>u\<in>set ys. \<not> P u) \<Longrightarrow> filter P ys = []"
    by (simp add: filter_empty_conv)
  consider "x < y" | "y = x" | "y < x" by (meson linorder_cases)
  then have "?R = y # (filter (\<lambda>u. x < u) ys @ filter (\<lambda>u. u = x) ys @ filter (\<lambda>u. u < x) ys)"
  proof cases
    case 1
    then have "y \<noteq> x" "\<not> y < x" by auto
    then show ?thesis using 1 by simp
  next
    case 2
    have "filter (\<lambda>u. x < u) ys = []" using ge 2 by (intro A) auto
    then show ?thesis using 2 by simp
  next
    case 3
    have "filter (\<lambda>u. x < u) ys = []" using ge 3 by (intro A) auto
    moreover have "filter (\<lambda>u. u = x) ys = []" using ge 3 by (intro A) auto
    moreover have "y \<noteq> x" "\<not> x < y" using 3 by auto
    ultimately show ?thesis using 3 by simp
  qed
  also have "\<dots> = y # ys" by (rule arg_cong [where f = "Cons y", OF IH [symmetric]])
  finally show ?case by (rule sym)
qed

lemma filter_eq_replicate: "filter (\<lambda>y. y = x) ys = replicate (length (filter (\<lambda>y. y = x) ys)) x"
  by (induction ys) auto

lemma positions_sorted_desc:
  fixes ys :: "rat list"
  assumes "sorted (rev ys)"
  shows "positions x ys =
     map Suc [length (filter (\<lambda>y. x < y) ys) ..<
              length (filter (\<lambda>y. x < y) ys) + length (filter (\<lambda>y. y = x) ys)]"
proof -
  let ?A = "filter (\<lambda>y. x < y) ys" and ?B = "filter (\<lambda>y. y = x) ys"
    and ?C = "filter (\<lambda>y. y < x) ys"
  let ?c = "length ?B"
  have B: "?B = replicate ?c x" by (rule filter_eq_replicate)
  have pA: "positions x ?A = []" by (rule positions_none) simp
  have pC: "positions x ?C = []" by (rule positions_none) simp
  have pB: "positions x ?B = map Suc [0..<?c]"
    using arg_cong [where f = "positions x", OF B] by (simp only: positions_replicate)
  have "positions x ys = positions x (?A @ ?B @ ?C)"
    by (rule arg_cong [where f = "positions x", OF sorted_desc_split [OF assms]])
  also have "\<dots> = map (\<lambda>p. length ?A + p) (map Suc [0..<?c])"
    by (simp only: positions_append pA pB pC list.map append_Nil append_Nil2)
  also have "\<dots> = map Suc (map (\<lambda>i. i + length ?A) [0..<?c])"
    by (simp add: comp_def add.commute)
  also have "map (\<lambda>i. i + length ?A) [0..<?c] = [length ?A ..< length ?A + ?c]"
    by (simp only: map_add_upt add.commute)
  finally show ?thesis .
qed

lemma rank_desc_nth:
  assumes "i < length xs"
  shows "rank_desc xs ! i =
     of_nat (sum_list (map Suc [length (filter (\<lambda>y. xs ! i < y) xs) ..<
              length (filter (\<lambda>y. xs ! i < y) xs) + length (filter (\<lambda>y. y = xs ! i) xs)]))
     / of_nat (length (filter (\<lambda>y. y = xs ! i) xs))"
proof -
  let ?ys = "rev (sort xs)"
  have m: "mset ?ys = mset xs" by simp
  have cnt: "\<And>P. length (filter P ?ys) = length (filter P xs)"
    by (metis m mset_filter size_mset)
  have "sorted (rev ?ys)" by simp
  from positions_sorted_desc [OF this, of "xs ! i"]
  show ?thesis using assms by (simp add: rank_desc_def Let_def cnt del: rev_rev_ident)
qed

lemma positions_distinct:
  assumes "distinct ys" "j < length ys"
  shows "positions (ys ! j) ys = [Suc j]"
proof -
  let ?L = "filter (\<lambda>i. ys ! i = ys ! j) [0..<length ys]"
  have "set ?L = {j}"
    using assms by (auto simp: nth_eq_iff_index_eq)
  moreover have "sorted ?L" "distinct ?L" by (simp_all add: sorted_wrt_filter)
  ultimately have "?L = [j]"
    by (intro sorted_distinct_set_unique) simp_all
  then show ?thesis by (simp add: positions_def)
qed

lemma rank_desc_distinct:
  assumes "distinct xs"
  shows "mset (rank_desc xs) = mset (map of_nat [1..<Suc (length xs)])"
proof -
  let ?ys = "rev (sort xs)"
  let ?r = "\<lambda>x. (of_nat (sum_list (positions x ?ys)) / of_nat (length (positions x ?ys)) :: rat)"
  have d: "distinct ?ys" using assms by simp
  have n: "length ?ys = length xs" by simp
  have "map ?r ?ys = map ?r (map ((!) ?ys) [0..<length ?ys])"
    by (simp only: map_nth)
  also have "\<dots> = map (\<lambda>j. ?r (?ys ! j)) [0..<length ?ys]"
    by (simp only: map_map comp_def)
  also have "\<dots> = map (\<lambda>j. of_nat (Suc j)) [0..<length ?ys]"
    by (rule map_cong[OF refl]) (simp add: positions_distinct [OF d] del: rev_rev_ident)
  also have "\<dots> = map of_nat (map Suc [0..<length xs])"
    by (simp add: comp_def)
  also have "\<dots> = map of_nat [1..<Suc (length xs)]"
    by (simp only: map_Suc_upt One_nat_def)
  finally have ys: "map ?r ?ys = map of_nat [1..<Suc (length xs)]" .
  have "mset (rank_desc xs) = image_mset ?r (mset xs)"
    by (simp add: rank_desc_def Let_def)
  also have "\<dots> = image_mset ?r (mset ?ys)" by simp
  also have "\<dots> = mset (map ?r ?ys)" by (simp only: mset_map)
  finally show ?thesis using ys by simp
qed

section \<open>What a generator does to the world\<close>

text \<open>Drawing on the figure that \<open>subplots\<close> has just opened changes that figure only.\<close>

lemma ax_new:
  "ax (length (figs w)) k a (w\<lparr>figs := figs w @ [F]\<rparr>) = w\<lparr>figs := figs w @ [draw k a F]\<rparr>"
  by (simp add: ax_def on_figure_def)

lemma set_suptitle_new:
  "set_suptitle (length (figs w)) s (w\<lparr>figs := figs w @ [F]\<rparr>)
     = w\<lparr>figs := figs w @ [F\<lparr>suptitle := s\<rparr>]\<rparr>"
  by (simp add: set_suptitle_def on_figure_def)

lemma savefig_new:
  "savefig p (w\<lparr>figs := figs w @ [F]\<rparr>)
     = w\<lparr>figs := figs w @ [F], files := (files w)(p \<mapsto> PNG F)\<rparr>"
  by (simp add: savefig_def gcf_def)

lemma fold_ax_new:
  "fold (\<lambda>x. ax (length (figs w)) k (g x)) xs (w\<lparr>figs := figs w @ [F]\<rparr>)
     = w\<lparr>figs := figs w @ [fold (\<lambda>x. draw k (g x)) xs F]\<rparr>"
  by (induction xs arbitrary: F) (simp_all add: ax_new)

lemma for_each_lift:
  assumes "\<And>a F. body a (W F) = map_option W (body' a F)"
  shows "for_each xs body (W F) = map_option W (for_each xs body' F)"
proof (induction xs arbitrary: F)
  case Nil
  show ?case by simp
next
  case (Cons a xs)
  show ?case by (cases "body' a F") (simp_all add: assms Cons.IH)
qed

lemma for_each_annotate:
  "for_each ps (\<lambda>p w. iloc xs (fst p) \<bind> (\<lambda>x. iloc ys (fst p) \<bind> (\<lambda>y.
        Some (ax (length (figs w0)) k (Annotate (f (snd p)) x y) w))))
      (w0\<lparr>figs := figs w0 @ [F]\<rparr>)
   = map_option (\<lambda>F'. w0\<lparr>figs := figs w0 @ [F']\<rparr>)
      (for_each ps (\<lambda>p F. iloc xs (fst p) \<bind> (\<lambda>x. iloc ys (fst p) \<bind> (\<lambda>y.
        Some (draw k (Annotate (f (snd p)) x y) F)))) F)"
  by (rule for_each_lift) (simp add: ax_new split: Option.bind_split)

lemmas for_each_annotate_id = for_each_annotate [where f = "\<lambda>c. c"]

lemma for_each_rank_text:
  "for_each is (\<lambda>i w. for_each js (\<lambda>j w. iloc rk i \<bind> (\<lambda>column. iloc column j \<bind> (\<lambda>r.
        Some (ax (length (figs w0)) k (Text (of_nat j) (of_nat i) (Lit (str_int (py_int r)))) w))))
      w) (w0\<lparr>figs := figs w0 @ [F]\<rparr>)
   = map_option (\<lambda>F'. w0\<lparr>figs := figs w0 @ [F']\<rparr>)
      (for_each is (\<lambda>i F. for_each js (\<lambda>j F. iloc rk i \<bind> (\<lambda>column. iloc column j \<bind> (\<lambda>r.
        Some (draw k (Text (of_nat j) (of_nat i) (Lit (str_int (py_int r)))) F)))) F) F)"
  by (rule for_each_lift, rule for_each_lift) (simp add: ax_new split: Option.bind_split)

lemmas run_simps =
  Let_def split_def subplots_def set_suptitle_new ax_new savefig_new fold_ax_new
  for_each_annotate_id for_each_annotate [where f = first_word] for_each_rank_text

lemma country_effect:
  assumes "create_country_performance_dashboard v w = Some (v', w')"
  shows "v' = v"
    and "create_country_performance_dashboard v w0 =
      Some (v, w0\<lparr>figs := figs w0 @ [last (figs w')],
               files := (files w0)(''visualizations/country_performance_dashboard.png'' \<mapsto>
                 the (files w' ''visualizations/country_performance_dashboard.png''))\<rparr>)"
    and "files w' ''visualizations/country_performance_dashboard.png'' = Some (PNG (last (figs w')))"
  using assms unfolding create_country_performance_dashboard_def
  by (auto simp add: run_simps split: Option.bind_splits)

lemma genre_effect:
  assumes "create_genre_analysis v w = Some (v', w')"
  shows "v' = v"
    and "create_genre_analysis v w0 =
      Some (v, w0\<lparr>figs := figs w0 @ [last (figs w')],
               files := (files w0)(''visualizations/genre_analysis.png'' \<mapsto>
                 the (files w' ''visualizations/genre_analysis.png''))\<rparr>)"
    and "files w' ''visualizations/genre_analysis.png'' = Some (PNG (last (figs w')))"
  using assms unfolding create_genre_analysis_def
  by (auto simp add: run_simps simp del: for_each.simps split: Option.bind_splits)

lemma segmentation_effect:
  assumes "create_customer_segmentation_viz v w = Some (v', w')"
  shows "v' = v"
    and "create_customer_segmentation_viz v w0 =
      Some (v, w0\<lparr>figs := figs w0 @ [last (figs w')],
               files := (files w0)(''visualizations/customer_segmentation.png'' \<mapsto>
                 the (files w' ''visualizations/customer_segmentation.png''))\<rparr>)"
    and "files w' ''visualizations/customer_segmentation.png'' = Some (PNG (last (figs w')))"
  using assms unfolding create_customer_segmentation_viz_def
  by (auto simp add: run_simps split: Option.bind_splits)

lemma temporal_effect:
  assumes "create_temporal_analysis v w = Some (v', w')"
  shows "v' = v"
    and "create_temporal_analysis v w0 =
      Some (v, w0\<lparr>figs := figs w0 @ [last (figs w')],
               files := (files w0)(''visualizations/temporal_analysis.png'' \<mapsto>
                 the (files w' ''visualizations/temporal_analysis.png''))\<rparr>)"
    and "files w' ''visualizations/temporal_analysis.png'' = Some (PNG (last (figs w')))"
  using assms unfolding create_temporal_analysis_def
  by (auto simp add: run_simps split: Option.bind_splits)

lemma interactive_effect:
  assumes "create_interactive_dashboard v w = Some (fig, v', w')"
  shows "v' = v"
    and "create_interactive_dashboard v w0 =
      Some (fig, v, w0\<lparr>files := (files w0)(''visualizations/interactive_dashboard.html'' \<mapsto> HTML fig),
         console := console w0 @ [''Interactive dashboard saved as '' @ [CHR 0x27]
                    @ ''visualizations/interactive_dashboard.html'' @ [CHR 0x27]]\<rparr>)"
  using assms unfolding create_interactive_dashboard_def
  by (auto simp add: Let_def write_html_def print_def split: Option.bind_splits)

text \<open>Changing the actor table of the instance changes nothing but the actor table of the
  instance that the generator returns.\<close>

lemma country_actor:
  "create_country_performance_dashboard (v\<lparr>actor_analysis := a\<rparr>) w
     = map_option (\<lambda>(v', w'). (v'\<lparr>actor_analysis := a\<rparr>, w'))
         (create_country_performance_dashboard v w)"
  unfolding create_country_performance_dashboard_def
  by (simp add: Let_def split_def map_option_bind comp_def)

lemma genre_actor:
  "create_genre_analysis (v\<lparr>actor_analysis := a\<rparr>) w
     = map_option (\<lambda>(v', w'). (v'\<lparr>actor_analysis := a\<rparr>, w')) (create_genre_analysis v w)"
  unfolding create_genre_analysis_def
  by (simp add: Let_def split_def map_option_bind comp_def del: for_each.simps)

lemma segmentation_actor:
  "create_customer_segmentation_viz (v\<lparr>actor_analysis := a\<rparr>) w
     = map_option (\<lambda>(v', w'). (v'\<lparr>actor_analysis := a\<rparr>, w'))
         (create_customer_segmentation_viz v w)"
  unfolding create_customer_segmentation_viz_def
  by (simp add: Let_def split_def map_option_bind comp_def)

lemma temporal_actor:
  "create_temporal_analysis (v\<lparr>actor_analysis := a\<rparr>) w
     = map_option (\<lambda>(v', w'). (v'\<lparr>actor_analysis := a\<rparr>, w')) (create_temporal_analysis v w)"
  unfolding create_temporal_analysis_def
  by (simp add: Let_def split_def map_option_bind comp_def)

lemma interactive_actor:
  "create_interactive_dashboard (v\<lparr>actor_analysis := a\<rparr>) w
     = map_option (\<lambda>(fig, v', w'). (fig, v'\<lparr>actor_analysis := a\<rparr>, w'))
         (create_interactive_dashboard v w)"
  unfolding create_interactive_dashboard_def
  by (simp add: Let_def split_def map_option_bind comp_def)

lemma generate_all_actor:
  "generate_all_visualizations (v\<lparr>actor_analysis := a\<rparr>) w
     = map_option (\<lambda>(v', w'). (v'\<lparr>actor_analysis := a\<rparr>, w'))
         (generate_all_visualizations v w)"
  unfolding generate_all_visualizations_def
  by (simp add: Let_def split_def map_option_bind comp_def bind_map_option
      country_actor genre_actor segmentation_actor temporal_actor interactive_actor)

subsection \<open>The generators succeed on the tables of the builder\<close>

lemma country_success:
  assumes "country_kpis v = country_kpis_data"
  shows "\<exists>w'. create_country_performance_dashboard v w = Some (v, w')"
  unfolding create_country_performance_dashboard_def
  by (simp add: assms run_simps numeric_def strings_def getitem_def country_kpis_data_def
      iloc_def enumerate_eq_zip upt_rec)

lemma genre_success:
  assumes "genre_performance v = genre_performance_data"
  shows "\<exists>w'. create_genre_analysis v w = Some (v, w')"
  unfolding create_genre_analysis_def
  by (simp add: assms run_simps numeric_def strings_def getitem_def genre_performance_data_def
      iloc_def enumerate_eq_zip upt_rec polyfit1_def rank_desc_def)

lemma segmentation_success:
  assumes "customer_segments v = customer_segments_data"
  shows "\<exists>w'. create_customer_segmentation_viz v w = Some (v, w')"
  unfolding create_customer_segmentation_viz_def
  by (simp add: assms run_simps numeric_def strings_def getitem_def customer_segments_data_def
      iloc_def enumerate_eq_zip upt_rec)

lemma index_sums_24:
  "sum_list (map of_nat [0..<24]) = (276 :: rat)"
  "sum_list (map (\<lambda>x. x * x) (map of_nat [0..<24])) = (4324 :: rat)"
  "sum_list (map ((\<lambda>x. x * x) \<circ> of_nat) [0..<24]) = (4324 :: rat)"
  by code_simp+

lemma polyfit1_index_24:
  assumes "length ys = 24"
  shows "polyfit1 (map of_nat [0..<24]) ys \<noteq> None"
  by (simp add: polyfit1_def Let_def assms index_sums_24 del: upt_Suc)

lemma temporal_success:
  assumes "monthly_trends v = monthly_trends_data months rentals revenue new_customers"
    and "length months = 24" and "length rentals = 24"
  shows "\<exists>w'. create_temporal_analysis v w = Some (v, w')"
proof -
  obtain z where z: "polyfit1 (map of_nat [0..<24]) (map (of_int \<circ> astype_int) rentals) = Some z"
    using polyfit1_index_24 [of "map (of_int \<circ> astype_int) rentals"] assms(3) by auto
  show ?thesis
    unfolding create_temporal_analysis_def
    by (simp add: assms z run_simps numeric_def dates_def getitem_def monthly_trends_data_def
        len_df_def del: upt_Suc)
qed

lemma interactive_success:
  assumes "country_kpis v = country_kpis_data"
    and "genre_performance v = genre_performance_data"
    and "customer_segments v = customer_segments_data"
    and "monthly_trends v = monthly_trends_data months rentals revenue new_customers"
  shows "\<exists>fig w'. create_interactive_dashboard v w = Some (fig, v, w')"
  unfolding create_interactive_dashboard_def
  by (simp add: assms Let_def numeric_def strings_def dates_def getitem_def
      country_kpis_data_def genre_performance_data_def customer_segments_data_def
      monthly_trends_data_def)

lemma country_run:
  assumes "country_kpis v = country_kpis_data"
  shows "\<exists>F. \<forall>w :: 'g world. create_country_performance_dashboard v w =
      Some (v, w\<lparr>figs := figs w @ [F],
        files := (files w)(''visualizations/country_performance_dashboard.png'' \<mapsto> PNG F)\<rparr>)"
proof -
  obtain w' :: "'g world" where r: "create_country_performance_dashboard v undefined = Some (v, w')"
    using country_success [OF assms] by blast
  show ?thesis
    by (intro exI [of _ "last (figs w')"] allI)
       (simp add: country_effect(2) [OF r] country_effect(3) [OF r])
qed

lemma genre_run:
  assumes "genre_performance v = genre_performance_data"
  shows "\<exists>F. \<forall>w :: 'g world. create_genre_analysis v w =
      Some (v, w\<lparr>figs := figs w @ [F],
        files := (files w)(''visualizations/genre_analysis.png'' \<mapsto> PNG F)\<rparr>)"
proof -
  obtain w' :: "'g world" where r: "create_genre_analysis v undefined = Some (v, w')"
    using genre_success [OF assms] by blast
  show ?thesis
    by (intro exI [of _ "last (figs w')"] allI)
       (simp add: genre_effect(2) [OF r] genre_effect(3) [OF r])
qed

lemma segmentation_run:
  assumes "customer_segments v = customer_segments_data"
  shows "\<exists>F. \<forall>w :: 'g world. create_customer_segmentation_viz v w =
      Some (v, w\<lparr>figs := figs w @ [F],
        files := (files w)(''visualizations/customer_segmentation.png'' \<mapsto> PNG F)\<rparr>)"
proof -
  obtain w' :: "'g world" where r: "create_customer_segmentation_viz v undefined = Some (v, w')"
    using segmentation_success [OF assms] by blast
  show ?thesis
    by (intro exI [of _ "last (figs w')"] allI)
       (simp add: segmentation_effect(2) [OF r] segmentation_effect(3) [OF r])
qed

lemma temporal_run:
  assumes "monthly_trends v = monthly_trends_data months rentals revenue new_customers"
    and "length months = 24" and "length rentals = 24"
  shows "\<exists>F. \<forall>w :: 'g world. create_temporal_analysis v w =
      Some (v, w\<lparr>figs := figs w @ [F],
        files := (files w)(''visualizations/temporal_analysis.png'' \<mapsto> PNG F)\<rparr>)"
proof -
  obtain w' :: "'g world" where r: "create_temporal_analysis v undefined = Some (v, w')"
    using temporal_success [OF assms] by blast
  show ?thesis
    by (intro exI [of _ "last (figs w')"] allI)
       (simp add: temporal_effect(2) [OF r] temporal_effect(3) [OF r])
qed

lemma interactive_run:
  assumes "country_kpis v = country_kpis_data"
    and "genre_performance v = genre_performance_data"
    and "customer_segments v = customer_segments_data"
    and "monthly_trends v = monthly_trends_data months rentals revenue new_customers"
  shows "\<exists>fig. \<forall>w :: 'g world. create_interactive_dashboard v w =
      Some (fig, v, w\<lparr>files := (files w)(''visualizations/interactive_dashboard.html'' \<mapsto> HTML fig),
         console := console w @ [''Interactive dashboard saved as '' @ [CHR 0x27]
                    @ ''visualizations/interactive_dashboard.html'' @ [CHR 0x27]]\<rparr>)"
proof -
  obtain fig and w' :: "'g world"
    where r: "create_interactive_dashboard v undefined = Some (fig, v, w')"
    using interactive_success [OF assms] by blast
  show ?thesis
    by (intro exI [of _ fig] allI) (simp add: interactive_effect(2) [OF r])
qed

lemma generate_all_run:
  assumes ck: "country_kpis v = country_kpis_data"
    and gp: "genre_performance v = genre_performance_data"
    and cs: "customer_segments v = customer_segments_data"
    and mt: "monthly_trends v = monthly_trends_data months rentals revenue new_customers"
    and "length months = 24" and "length rentals = 24"
  shows "\<exists>F1 F2 F3 F4 H. \<forall>w :: 'g world. generate_all_visualizations v w =
      Some (v, w\<lparr>figs := figs w @ [F1, F2, F3, F4],
        files := (files w)
          (''visualizations/country_performance_dashboard.png'' \<mapsto> PNG F1,
           ''visualizations/genre_analysis.png'' \<mapsto> PNG F2,
           ''visualizations/customer_segmentation.png'' \<mapsto> PNG F3,
           ''visualizations/temporal_analysis.png'' \<mapsto> PNG F4,
           ''visualizations/interactive_dashboard.html'' \<mapsto> HTML H),
        console := console w @
          [''Generating MovieNow Business Intelligence Visualizations...'',
           ''1. Creating Country Performance Dashboard...'',
           ''2. Creating Genre Analysis...'',
           ''3. Creating Customer Segmentation...'',
           ''4. Creating Temporal Analysis...'',
           ''5. Creating Interactive Dashboard...'',
           ''Interactive dashboard saved as '' @ [CHR 0x27]
              @ ''visualizations/interactive_dashboard.html'' @ [CHR 0x27],
           [],
           ''All visualizations generated successfully!'',
           ''Files saved in '' @ [CHR 0x27] @ ''visualizations/'' @ [CHR 0x27] @ '' directory:'',
           ''- country_performance_dashboard.png'',
           ''- genre_analysis.png'',
           ''- customer_segmentation.png'',
           ''- temporal_analysis.png'',
           ''- interactive_dashboard.html'']\<rparr>)"
proof -
  obtain F1 where c1: "\<And>w :: 'g world. create_country_performance_dashboard v w =
      Some (v, w\<lparr>figs := figs w @ [F1],
        files := (files w)(''visualizations/country_performance_dashboard.png'' \<mapsto> PNG F1)\<rparr>)"
    using country_run [OF ck] by blast
  obtain F2 where c2: "\<And>w :: 'g world. create_genre_analysis v w =
      Some (v, w\<lparr>figs := figs w @ [F2],
        files := (files w)(''visualizations/genre_analysis.png'' \<mapsto> PNG F2)\<rparr>)"
    using genre_run [OF gp] by blast
  obtain F3 where c3: "\<And>w :: 'g world. create_customer_segmentation_viz v w =
      Some (v, w\<lparr>figs := figs w @ [F3],
        files := (files w)(''visualizations/customer_segmentation.png'' \<mapsto> PNG F3)\<rparr>)"
    using segmentation_run [OF cs] by blast
  obtain F4 where c4: "\<And>w :: 'g world. create_temporal_analysis v w =
      Some (v, w\<lparr>figs := figs w @ [F4],
        files := (files w)(''visualizations/temporal_analysis.png'' \<mapsto> PNG F4)\<rparr>)"
    using temporal_run [OF mt assms(5,6)] by blast
  obtain H where c5: "\<And>w :: 'g world. create_interactive_dashboard v w =
      Some (H, v, w\<lparr>files := (files w)(''visualizations/interactive_dashboard.html'' \<mapsto> HTML H),
         console := console w @ [''Interactive dashboard saved as '' @ [CHR 0x27]
                    @ ''visualizations/interactive_dashboard.html'' @ [CHR 0x27]]\<rparr>)"
    using interactive_run [OF ck gp cs mt] by blast
  show ?thesis
    by (intro exI [of _ F1] exI [of _ F2] exI [of _ F3] exI [of _ F4] exI [of _ H])
       (simp add: generate_all_visualizations_def c1 c2 c3 c4 c5 print_def)
qed

lemma splitlines_no_newline:
  "CHR 0x0A \<notin> set s \<Longrightarrow> splitlines acc s = [rev acc @ s]"
  by (induction s arbitrary: acc) auto

lemma console_fold_print:
  "\<exists>L. fold (\<lambda>s w. print (f s) w) xs w = w\<lparr>console := console w @ L\<rparr>"
proof (induction xs arbitrary: w)
  case Nil
  show ?case by (intro exI [of _ "[]"]) simp
next
  case (Cons x xs)
  obtain L where "fold (\<lambda>s w. print (f s) w) xs (print (f x) w)
      = (print (f x) w)\<lparr>console := console (print (f x) w) @ L\<rparr>"
    using Cons.IH by blast
  then show ?case
    by (intro exI [of _ "splitlines [] (f x) @ L"]) (simp add: print_def)
qed

lemma check_available_styles_console:
  "\<exists>L. check_available_styles w = w\<lparr>console := console w @ L\<rparr>"
proof -
  obtain L where "fold (\<lambda>s w. print (''  - '' @ s) w) (available w)
        (print ''Available matplotlib styles:'' w)
      = (print ''Available matplotlib styles:'' w)
          \<lparr>console := console (print ''Available matplotlib styles:'' w) @ L\<rparr>"
    using console_fold_print [of "\<lambda>s. ''  - '' @ s" "available w"
        "print ''Available matplotlib styles:'' w"] by blast
  then show ?thesis
    by (intro exI [of _ "''Available matplotlib styles:'' # L"])
       (simp add: check_available_styles_def print_def)
qed

lemma module_init_console:
  "\<exists>s L. module_init w = Some (w\<lparr>style := s, console := console w @ L\<rparr>)"
proof (cases "style_use ''seaborn-v0_8'' w")
  case (Some w1)
  then show ?thesis
    by (intro exI [of _ "''seaborn-v0_8''"] exI [of _ "[]"])
       (auto simp: module_init_def style_use_def split: if_splits)
next
  case None
  note n1 = this
  show ?thesis
  proof (cases "style_use ''seaborn'' w")
    case (Some w2)
    then show ?thesis using n1
      by (intro exI [of _ "''seaborn''"] exI [of _ "[]"])
         (auto simp: module_init_def style_use_def split: if_splits)
  next
    case None
    then show ?thesis using n1
      by (intro exI [of _ "''default''"]
            exI [of _ "[''Note: Using default matplotlib style. For better visuals, ''
                            @ ''consider updating matplotlib/seaborn.'']"])
         (simp add: module_init_def style_use_def print_def)
  qed
qed

lemma str_nat_values:
  "str_nat 7 = ''7''" "str_nat 4 = ''4''" "str_nat 24 = ''24''"
  by code_simp+

text \<open>The whole run, with the instance that it builds.\<close>

lemma program_run:
  fixes lib :: "'a np_random" and w :: "'a world"
  assumes v_def: "v = \<lparr>country_kpis = country_kpis_data,
            genre_performance = genre_performance_data,
            customer_segments = customer_segments_data,
            monthly_trends =
              monthly_trends_data (date_range_M (Date 2018 1 1) (Date 2019 12 31))
                (fst (normal lib 800 150 24 (seed_state lib 42)))
                (fst (normal lib 5600 1050 24 (snd (normal lib 800 150 24 (seed_state lib 42)))))
                (fst (normal lib 45 12 24 (snd (normal lib 5600 1050 24
                   (snd (normal lib 800 150 24 (seed_state lib 42))))))),
            actor_analysis = actor_analysis_data\<rparr>"
  shows "\<exists>w' F1 F2 F3 F4 H pre.
     program lib w = Some (v, w')
     \<and> files w' = (files w)
          (''visualizations/country_performance_dashboard.png'' \<mapsto> PNG F1,
           ''visualizations/genre_analysis.png'' \<mapsto> PNG F2,
           ''visualizations/customer_segmentation.png'' \<mapsto> PNG F3,
           ''visualizations/temporal_analysis.png'' \<mapsto> PNG F4,
           ''visualizations/interactive_dashboard.html'' \<mapsto> HTML H)
     \<and> exists_path ''visualizations'' w'
     \<and> console w' = console w @ pre @
          [[], replicate 50 CHR ''='',
           ''Generating MovieNow Business Intelligence Visualizations...'',
           ''1. Creating Country Performance Dashboard...'',
           ''2. Creating Genre Analysis...'',
           ''3. Creating Customer Segmentation...'',
           ''4. Creating Temporal Analysis...'',
           ''5. Creating Interactive Dashboard...'',
           ''Interactive dashboard saved as '' @ [CHR 0x27]
              @ ''visualizations/interactive_dashboard.html'' @ [CHR 0x27],
           [],
           ''All visualizations generated successfully!'',
           ''Files saved in '' @ [CHR 0x27] @ ''visualizations/'' @ [CHR 0x27] @ '' directory:'',
           ''- country_performance_dashboard.png'',
           ''- genre_analysis.png'',
           ''- customer_segmentation.png'',
           ''- temporal_analysis.png'',
           ''- interactive_dashboard.html'',
           [], replicate 50 CHR ''='',
           ''MOVIENOW BUSINESS INTELLIGENCE - SUMMARY STATS'',
           replicate 50 CHR ''='',
           ''Countries Analyzed: 7'',
           ''Genres Analyzed: 7'',
           ''Customer Segments: 4'',
           ''Time Period: 24 months'',
           replicate 50 CHR ''='']"
proof -
  let ?months = "date_range_M (Date 2018 1 1) (Date 2019 12 31)"
  let ?r1 = "fst (normal lib 800 150 24 (seed_state lib 42))"
  let ?r2 = "fst (normal lib 5600 1050 24 (snd (normal lib 800 150 24 (seed_state lib 42))))"
  let ?r3 = "fst (normal lib 45 12 24 (snd (normal lib 5600 1050 24
                   (snd (normal lib 800 150 24 (seed_state lib 42))))))"
  let ?g = "snd (normal lib 45 12 24
            (snd (normal lib 5600 1050 24 (snd (normal lib 800 150 24 (seed_state lib 42))))))"
  have su: "\<And>w :: 'a world. setup_sample_data lib w = Some (v, w\<lparr>rng := ?g\<rparr>)"
    unfolding v_def by (rule setup_eq)
  have tables: "country_kpis v = country_kpis_data"
    "genre_performance v = genre_performance_data"
    "customer_segments v = customer_segments_data"
    "monthly_trends v = monthly_trends_data ?months ?r1 ?r2 ?r3"
    by (simp_all add: v_def)
  have lens: "len_df (country_kpis v) = 7" "len_df (genre_performance v) = 7"
    "len_df (customer_segments v) = 4" "len_df (monthly_trends v) = 24"
    by (simp_all add: v_def len_df_def country_kpis_data_def genre_performance_data_def
        customer_segments_data_def monthly_trends_data_def length_months [simplified])
  obtain F1 F2 F3 F4 H where gen: "\<And>w :: 'a world. generate_all_visualizations v w =
      Some (v, w\<lparr>figs := figs w @ [F1, F2, F3, F4],
        files := (files w)
          (''visualizations/country_performance_dashboard.png'' \<mapsto> PNG F1,
           ''visualizations/genre_analysis.png'' \<mapsto> PNG F2,
           ''visualizations/customer_segmentation.png'' \<mapsto> PNG F3,
           ''visualizations/temporal_analysis.png'' \<mapsto> PNG F4,
           ''visualizations/interactive_dashboard.html'' \<mapsto> HTML H),
        console := console w @
          [''Generating MovieNow Business Intelligence Visualizations...'',
           ''1. Creating Country Performance Dashboard...'',
           ''2. Creating Genre Analysis...'',
           ''3. Creating Customer Segmentation...'',
           ''4. Creating Temporal Analysis...'',
           ''5. Creating Interactive Dashboard...'',
           ''Interactive dashboard saved as '' @ [CHR 0x27]
              @ ''visualizations/interactive_dashboard.html'' @ [CHR 0x27],
           [],
           ''All visualizations generated successfully!'',
           ''Files saved in '' @ [CHR 0x27] @ ''visualizations/'' @ [CHR 0x27] @ '' directory:'',
           ''- country_performance_dashboard.png'',
           ''- genre_analysis.png'',
           ''- customer_segmentation.png'',
           ''- temporal_analysis.png'',
           ''- interactive_dashboard.html'']\<rparr>)"
    using generate_all_run [OF tables length_months, where ?'g = 'a] by auto
  obtain s L0 where mi: "module_init w = Some (w\<lparr>style := s, console := console w @ L0\<rparr>)"
    using module_init_console by blast
  define w1 where "w1 = w\<lparr>style := s, console := console w @ L0\<rparr>"
  define w2 where "w2 = w1\<lparr>console := console w1 @ [''Checking matplotlib configuration...'']\<rparr>"
  obtain L1 where cs: "check_available_styles w2 = w2\<lparr>console := console w2 @ L1\<rparr>"
    using check_available_styles_console by blast
  note cs' = cs [unfolded w2_def]
  have eq: "replicate 50 CHR ''='' = ''=================================================='' "
    by code_simp
  have m: "\<exists>w'. main lib w1 = Some (v, w')
      \<and> files w' = (files w1)
          (''visualizations/country_performance_dashboard.png'' \<mapsto> PNG F1,
           ''visualizations/genre_analysis.png'' \<mapsto> PNG F2,
           ''visualizations/customer_segmentation.png'' \<mapsto> PNG F3,
           ''visualizations/temporal_analysis.png'' \<mapsto> PNG F4,
           ''visualizations/interactive_dashboard.html'' \<mapsto> HTML H)
      \<and> exists_path ''visualizations'' w'
      \<and> console w' = console w1 @ (''Checking matplotlib configuration...'' # L1) @
          [[], replicate 50 CHR ''='',
           ''Generating MovieNow Business Intelligence Visualizations...'',
           ''1. Creating Country Performance Dashboard...'',
           ''2. Creating Genre Analysis...'',
           ''3. Creating Customer Segmentation...'',
           ''4. Creating Temporal Analysis...'',
           ''5. Creating Interactive Dashboard...'',
           ''Interactive dashboard saved as '' @ [CHR 0x27]
              @ ''visualizations/interactive_dashboard.html'' @ [CHR 0x27],
           [],
           ''All visualizations generated successfully!'',
           ''Files saved in '' @ [CHR 0x27] @ ''visualizations/'' @ [CHR 0x27] @ '' directory:'',
           ''- country_performance_dashboard.png'',
           ''- genre_analysis.png'',
           ''- customer_segmentation.png'',
           ''- temporal_analysis.png'',
           ''- interactive_dashboard.html'',
           [], replicate 50 CHR ''='',
           ''MOVIENOW BUSINESS INTELLIGENCE - SUMMARY STATS'',
           replicate 50 CHR ''='',
           ''Countries Analyzed: 7'',
           ''Genres Analyzed: 7'',
           ''Customer Segments: 4'',
           ''Time Period: 24 months'',
           replicate 50 CHR ''='']"
    unfolding eq
    by (simp add: main_def init_def su gen cs' create_output_directory_def makedirs_def
        exists_path_def print_def lens str_nat_values Let_def eq)
  have p: "program lib w = main lib w1"
    by (simp add: program_def mi w1_def)
  from m obtain w' where 1: "main lib w1 = Some (v, w')"
    and 2: "files w' = (files w1)
          (''visualizations/country_performance_dashboard.png'' \<mapsto> PNG F1,
           ''visualizations/genre_analysis.png'' \<mapsto> PNG F2,
           ''visualizations/customer_segmentation.png'' \<mapsto> PNG F3,
           ''visualizations/temporal_analysis.png'' \<mapsto> PNG F4,
           ''visualizations/interactive_dashboard.html'' \<mapsto> HTML H)"
    and 3: "exists_path ''visualizations'' w'"
    and 4: "console w' = console w1 @ (''Checking matplotlib configuration...'' # L1) @
          [[], replicate 50 CHR ''='',
           ''Generating MovieNow Business Intelligence Visualizations...'',
           ''1. Creating Country Performance Dashboard...'',
           ''2. Creating Genre Analysis...'',
           ''3. Creating Customer Segmentation...'',
           ''4. Creating Temporal Analysis...'',
           ''5. Creating Interactive Dashboard...'',
           ''Interactive dashboard saved as '' @ [CHR 0x27]
              @ ''visualizations/interactive_dashboard.html'' @ [CHR 0x27],
           [],
           ''All visualizations generated successfully!'',
           ''Files saved in '' @ [CHR 0x27] @ ''visualizations/'' @ [CHR 0x27] @ '' directory:'',
           ''- country_performance_dashboard.png'',
           ''- genre_analysis.png'',
           ''- customer_segmentation.png'',
           ''- temporal_analysis.png'',
           ''- interactive_dashboard.html'',
           [], replicate 50 CHR ''='',
           ''MOVIENOW BUSINESS INTELLIGENCE - SUMMARY STATS'',
           replicate 50 CHR ''='',
           ''Countries Analyzed: 7'',
           ''Genres Analyzed: 7'',
           ''Customer Segments: 4'',
           ''Time Period: 24 months'',
           replicate 50 CHR ''='']"
    by blast
  have f1: "files w1 = files w" and c1: "console w1 = console w @ L0"
    by (simp_all add: w1_def)
  show ?thesis
    apply (rule exI [of _ w'], rule exI [of _ F1], rule exI [of _ F2],
        rule exI [of _ F3], rule exI [of _ F4], rule exI [of _ H],
        rule exI [of _ "L0 @ ''Checking matplotlib configuration...'' # L1"])
    apply (simp only: p 1 2 3 4 f1 c1 append_assoc append_Cons append_Nil)
    done
qed

subsection \<open>The artists of a panel\<close>

text \<open>What a run has drawn, read off the figure that it has saved.\<close>

lemma length_axes_draw: "length (axes (draw k a f)) = length (axes f)"
  by (simp add: draw_def)

lemma nth_axes_draw:
  "axes (draw k a f) ! j =
     (if j = k \<and> k < length (axes f) then axes f ! j @ [a] else axes f ! j)"
  by (cases "k < length (axes f)") (simp_all add: draw_def nth_list_update list_update_beyond)

lemma axes_new_figure: "axes (new_figure n\<lparr>suptitle := s\<rparr>) = replicate n []"
  by (simp add: new_figure_def)

lemmas figure_simps = length_axes_draw nth_axes_draw axes_new_figure

lemma temporal_content:
  assumes "create_temporal_analysis v w = Some (v', w')"
  shows "\<exists>month rentals revenue z.
      dates (monthly_trends v) ''month'' = Some month
      \<and> numeric (monthly_trends v) ''rentals'' = Some rentals
      \<and> numeric (monthly_trends v) ''revenue'' = Some revenue
      \<and> polyfit1 (map of_nat [0..<len_df (monthly_trends v)]) rentals = Some z
      \<and> files w' ''visualizations/temporal_analysis.png'' = Some (PNG (last (figs w')))
      \<and> Plot (Dates month) (map Finite (poly1d z (map of_nat [0..<len_df (monthly_trends v)])))
           \<in> set (axes (last (figs w')) ! 0)
      \<and> Plot (Dates month) (series_div revenue rentals) \<in> set (axes (last (figs w')) ! 3)"
  using assms unfolding create_temporal_analysis_def
  apply (simp add: run_simps split: Option.bind_splits)
  apply (elim exE conjE)
  apply hypsubst
  apply (simp add: figure_simps)
  apply auto
  done

lemma for_each_invariant:
  assumes "for_each xs body s = Some s'" and "P s"
    and "\<And>a s s'. body a s = Some s' \<Longrightarrow> P s \<Longrightarrow> P s'"
  shows "P s'"
  using assms(1,2)
proof (induction xs arbitrary: s)
  case Nil
  then show ?case by simp
next
  case (Cons a xs)
  from Cons.prems(1) obtain s1 where 1: "body a s = Some s1" and 2: "for_each xs body s1 = Some s'"
    by (auto split: Option.bind_splits)
  from assms(3) [OF 1 Cons.prems(2)] have "P s1" .
  from Cons.IH [OF 2 this] show ?case .
qed

lemma draw_keeps:
  assumes "length (axes G) = n \<and> (\<forall>x m. x \<in> set (axes F ! m) \<longrightarrow> x \<in> set (axes G ! m))"
  shows "length (axes (draw k a G)) = n
     \<and> (\<forall>x m. x \<in> set (axes F ! m) \<longrightarrow> x \<in> set (axes (draw k a G) ! m))"
  using assms by (auto simp: length_axes_draw nth_axes_draw)

lemma for_each_annotate_keeps:
  assumes "for_each ps (\<lambda>p F. iloc xs (fst p) \<bind> (\<lambda>x. iloc ys (fst p) \<bind> (\<lambda>y.
        Some (draw k (Annotate (f (snd p)) x y) F)))) F = Some F'"
  shows "length (axes F') = length (axes F)"
  by (rule for_each_invariant [OF assms, where P = "\<lambda>G. length (axes G) = length (axes F)"])
     (auto simp: length_axes_draw split: Option.bind_splits)

lemma for_each_rank_text_keeps:
  assumes "for_each is (\<lambda>i F. for_each js (\<lambda>j F. iloc rk i \<bind> (\<lambda>column. iloc column j \<bind> (\<lambda>r.
        Some (draw k (Text (of_nat j) (of_nat i) (Lit (str_int (py_int r)))) F)))) F) F = Some F'"
  shows "length (axes F') = length (axes F)
     \<and> (\<forall>x m. x \<in> set (axes F ! m) \<longrightarrow> x \<in> set (axes F' ! m))"
proof (rule for_each_invariant [OF assms, where P = "\<lambda>G. length (axes G) = length (axes F)
     \<and> (\<forall>x m. x \<in> set (axes F ! m) \<longrightarrow> x \<in> set (axes G ! m))"])
  show "length (axes F) = length (axes F)
     \<and> (\<forall>x m. x \<in> set (axes F ! m) \<longrightarrow> x \<in> set (axes F ! m))" by simp
next
  fix i s s'
  assume 1: "for_each js (\<lambda>j F. iloc rk i \<bind> (\<lambda>column. iloc column j \<bind> (\<lambda>r.
        Some (draw k (Text (of_nat j) (of_nat i) (Lit (str_int (py_int r)))) F)))) s = Some s'"
    and 2: "length (axes s) = length (axes F)
     \<and> (\<forall>x m. x \<in> set (axes F ! m) \<longrightarrow> x \<in> set (axes s ! m))"
  show "length (axes s') = length (axes F)
     \<and> (\<forall>x m. x \<in> set (axes F ! m) \<longrightarrow> x \<in> set (axes s' ! m))"
  proof (rule for_each_invariant [OF 1, where P = "\<lambda>G. length (axes G) = length (axes F)
     \<and> (\<forall>x m. x \<in> set (axes F ! m) \<longrightarrow> x \<in> set (axes G ! m))"])
    show "length (axes s) = length (axes F)
     \<and> (\<forall>x m. x \<in> set (axes F ! m) \<longrightarrow> x \<in> set (axes s ! m))" by (rule 2)
  next
    fix j t t'
    assume b: "iloc rk i \<bind> (\<lambda>column. iloc column j \<bind> (\<lambda>r.
        Some (draw k (Text (of_nat j) (of_nat i) (Lit (str_int (py_int r)))) t))) = Some t'"
      and t: "length (axes t) = length (axes F)
     \<and> (\<forall>x m. x \<in> set (axes F ! m) \<longrightarrow> x \<in> set (axes t ! m))"
    from b obtain a where "t' = draw k a t" by (auto split: Option.bind_splits)
    with draw_keeps [OF t] show "length (axes t') = length (axes F)
     \<and> (\<forall>x m. x \<in> set (axes F ! m) \<longrightarrow> x \<in> set (axes t' ! m))" by simp
  qed
qed

lemma ex_pair_eq: "(\<exists>a b. z = (a, b) \<and> P a b) \<longleftrightarrow> P (fst z) (snd z)"
  by (cases z) auto

lemma genre_content:
  assumes "create_genre_analysis v w = Some (v', w')"
  shows "\<exists>avg_price avg_rating total_rentals a b.
      numeric (genre_performance v) ''avg_price'' = Some avg_price
      \<and> numeric (genre_performance v) ''avg_rating'' = Some avg_rating
      \<and> numeric (genre_performance v) ''total_rentals'' = Some total_rentals
      \<and> polyfit1 avg_price avg_rating = Some (a, b)
      \<and> files w' ''visualizations/genre_analysis.png'' = Some (PNG (last (figs w')))
      \<and> Plot (Num (map Finite avg_price)) (map Finite (poly1d (a, b) avg_price))
           \<in> set (axes (last (figs w')) ! 2)
      \<and> Imshow (map (map Finite) [rank_desc avg_rating, rank_desc total_rentals,
            rank_desc avg_price]) \<in> set (axes (last (figs w')) ! 3)"
  using assms unfolding create_genre_analysis_def
  apply (simp add: run_simps del: for_each.simps split: Option.bind_splits)
  apply (elim exE conjE)
  apply hypsubst
  apply (simp add: run_simps del: for_each.simps split: Option.bind_splits)
  apply (elim exE conjE)
  apply hypsubst
  apply (frule for_each_annotate_keeps [where f = "\<lambda>c. c"])
  apply (frule for_each_rank_text_keeps)
  apply (simp add: run_simps figure_simps ex_pair_eq del: for_each.simps)
  done

lemma fold_draw_length:
  "length (axes (fold (\<lambda>x. draw k (g x)) xs F)) = length (axes F)"
  by (induction xs arbitrary: F) (simp_all add: length_axes_draw)

lemma country_content:
  assumes "create_country_performance_dashboard v w = Some (v', w')"
  shows "\<exists>total_rentals avg_rating total_revenue.
      numeric (country_kpis v) ''total_rentals'' = Some total_rentals
      \<and> numeric (country_kpis v) ''avg_rating'' = Some avg_rating
      \<and> numeric (country_kpis v) ''total_revenue'' = Some total_revenue
      \<and> files w' ''visualizations/country_performance_dashboard.png''
          = Some (PNG (last (figs w')))
      \<and> Imshow (map min_max_normalize [total_rentals, avg_rating, total_revenue])
          \<in> set (axes (last (figs w')) ! 3)"
  using assms unfolding create_country_performance_dashboard_def
  apply (simp add: run_simps del: for_each.simps split: Option.bind_splits)
  apply (elim exE conjE)
  apply hypsubst
  apply (simp add: run_simps del: for_each.simps split: Option.bind_splits)
  apply (frule for_each_annotate_keeps [where f = "\<lambda>c. c"])
  apply (simp add: run_simps figure_simps fold_draw_length del: for_each.simps)
  done

lemma example_first_draws:
  "map astype_int (fst (normal example_random 800 150 24 (seed_state example_random 42))) ! 0
     = 575"
  "map astype_int (fst (normal example_random 5600 1050 24
      (snd (normal example_random 800 150 24 (seed_state example_random 42))))) ! 0 = 5600"
  by code_simp+

section \<open>The claims\<close>

subsection \<open>The dataset builder\<close>

text \<open>
  Claim C1. The dataset builder takes no input: whatever the state of the world it starts
  in (the state of numpy's global generator included), it succeeds and builds the same five
  tables. The three numeric columns of the monthly table are the truncated values of three
  successive series of 24 normal draws, the first of them starting from the state that the
  seed 42 installs. The whole program, run from any state of the world, ends with this same
  instance. Two runs therefore produce the same monthly table.
\<close>

theorem monthly_trends_reproducible:
  "\<exists>v. (\<forall>w :: 'g world. \<exists>w'. setup_sample_data lib w = Some (v, w'))
      \<and> (\<forall>w :: 'g world. \<exists>w'. program lib w = Some (v, w'))
      \<and> monthly_trends v =
          monthly_trends_data (date_range_M (Date 2018 1 1) (Date 2019 12 31))
            (fst (normal lib 800 150 24 (seed_state lib 42)))
            (fst (normal lib 5600 1050 24 (snd (normal lib 800 150 24 (seed_state lib 42)))))
            (fst (normal lib 45 12 24 (snd (normal lib 5600 1050 24
               (snd (normal lib 800 150 24 (seed_state lib 42)))))))"
proof -
  define v :: visualizer where "v = \<lparr>country_kpis = country_kpis_data,
            genre_performance = genre_performance_data,
            customer_segments = customer_segments_data,
            monthly_trends =
              monthly_trends_data (date_range_M (Date 2018 1 1) (Date 2019 12 31))
                (fst (normal lib 800 150 24 (seed_state lib 42)))
                (fst (normal lib 5600 1050 24 (snd (normal lib 800 150 24 (seed_state lib 42)))))
                (fst (normal lib 45 12 24 (snd (normal lib 5600 1050 24
                   (snd (normal lib 800 150 24 (seed_state lib 42))))))),
            actor_analysis = actor_analysis_data\<rparr>"
  have a: "\<exists>w'. setup_sample_data lib w = Some (v, w')" for w :: "'g world"
    unfolding v_def by (simp add: setup_eq)
  have b: "\<exists>w'. program lib w = Some (v, w')" for w :: "'g world"
    using program_run [OF v_def, where w = w] by blast
  have c: "monthly_trends v =
          monthly_trends_data (date_range_M (Date 2018 1 1) (Date 2019 12 31))
            (fst (normal lib 800 150 24 (seed_state lib 42)))
            (fst (normal lib 5600 1050 24 (snd (normal lib 800 150 24 (seed_state lib 42)))))
            (fst (normal lib 45 12 24 (snd (normal lib 5600 1050 24
               (snd (normal lib 800 150 24 (seed_state lib 42)))))))"
    unfolding v_def by simp
  from a b c show ?thesis by blast
qed

text \<open>On the example generator, started from two different generator states: the two
  runs of the builder, and the two runs of the program, end with the same instance; its first
  monthly rental figures are as computed.\<close>

theorem monthly_trends_reproducible_witness:
  "\<exists>v w1 w2 p1 p2.
     setup_sample_data example_random example_world = Some (v, w1)
     \<and> setup_sample_data example_random (example_world\<lparr>rng := 7\<rparr>) = Some (v, w2)
     \<and> program example_random example_world = Some (v, p1)
     \<and> program example_random (example_world\<lparr>rng := 7\<rparr>) = Some (v, p2)
     \<and> map_option (take 3) (numeric (monthly_trends v) ''rentals'') = Some [575, 650, 725]"
proof -
  obtain v where all: "\<forall>w :: nat world. \<exists>w'. setup_sample_data example_random w = Some (v, w')"
    and prog: "\<forall>w :: nat world. \<exists>w'. program example_random w = Some (v, w')"
    and mt: "monthly_trends v =
          monthly_trends_data (date_range_M (Date 2018 1 1) (Date 2019 12 31))
            (fst (normal example_random 800 150 24 (seed_state example_random 42)))
            (fst (normal example_random 5600 1050 24
               (snd (normal example_random 800 150 24 (seed_state example_random 42)))))
            (fst (normal example_random 45 12 24 (snd (normal example_random 5600 1050 24
               (snd (normal example_random 800 150 24 (seed_state example_random 42)))))))"
    using monthly_trends_reproducible [of example_random] by blast
  obtain w1 where r1: "setup_sample_data example_random example_world = Some (v, w1)"
    using all by blast
  obtain w2 where r2: "setup_sample_data example_random (example_world\<lparr>rng := 7\<rparr>) = Some (v, w2)"
    using all by blast
  obtain p1 where q1: "program example_random example_world = Some (v, p1)"
    using prog by blast
  obtain p2 where q2: "program example_random (example_world\<lparr>rng := 7\<rparr>) = Some (v, p2)"
    using prog by blast
  have three: "take 3 (fst (normal example_random 800 150 24 (seed_state example_random 42)))
      = [575, 650, 725]"
    by code_simp
  have "map_option (take 3) (numeric (monthly_trends v) ''rentals'') = Some [575, 650, 725]"
    unfolding mt
    by (simp add: numeric_def getitem_def monthly_trends_data_def take_map three astype_int_def)
  with r1 r2 q1 q2 show ?thesis by blast
qed

text \<open>
  Claim C2. After the builder has run, the country and the genre table have 7 rows each,
  the customer segment table has 4, the monthly table has 24, one for each month from
  January 2018 to December 2019 (dated at the end of the month), and the actor table has 6.
\<close>

theorem table_row_counts:
  "\<exists>v w'. setup_sample_data lib w = Some (v, w')
     \<and> len_df (country_kpis v) = 7
     \<and> len_df (genre_performance v) = 7
     \<and> len_df (customer_segments v) = 4
     \<and> len_df (monthly_trends v) = 24
     \<and> len_df (actor_analysis v) = 6
     \<and> map_option (map (\<lambda>d. (year d, month d))) (dates (monthly_trends v) ''month'')
         = Some (map (Pair 2018) [1..<13] @ map (Pair 2019) [1..<13])"
proof -
  have months: "map (\<lambda>d. (year d, month d)) (date_range_M (Date 2018 1 1) (Date 2019 12 31))
      = map (Pair 2018) [1..<13] @ map (Pair 2019) [1..<13]"
    unfolding months_eval by code_simp
  show ?thesis
    unfolding setup_eq
    by (intro exI conjI, rule refl)
       (simp_all add: len_df_def country_kpis_data_def genre_performance_data_def
          customer_segments_data_def monthly_trends_data_def actor_analysis_data_def
          length_months[simplified] dates_def getitem_def months[simplified])
qed

theorem table_row_counts_witness:
  "\<exists>v w'. setup_sample_data example_random example_world = Some (v, w')
     \<and> map len_df [country_kpis v, genre_performance v, customer_segments v,
                     monthly_trends v, actor_analysis v] = [7, 7, 4, 24, 6]"
  using table_row_counts [of example_random example_world] by auto

subsection \<open>A whole run of the program\<close>



subsection \<open>Min-max normalization of the country matrix\<close>

text \<open>
  Claim C4. The heatmap of the country report shows the three columns of the performance
  matrix (rentals, rating, revenue), each normalized on its own. Take a column and one of
  its rows. When the values of the column are not all equal, the normalized value of the row
  is a number between 0 and 1; it is 0 for a row that holds the minimum of the column and 1
  for a row that holds the maximum. When all values of the column are equal, the divisor is
  zero: no exception is raised, and the normalized value is the float NaN (zero divided by
  zero).
\<close>

theorem min_max_normalize_range:
  "(create_country_performance_dashboard v w = Some (v', w') \<longrightarrow>
      (\<exists>total_rentals avg_rating total_revenue.
         numeric (country_kpis v) ''total_rentals'' = Some total_rentals
         \<and> numeric (country_kpis v) ''avg_rating'' = Some avg_rating
         \<and> numeric (country_kpis v) ''total_revenue'' = Some total_revenue
         \<and> files w' ''visualizations/country_performance_dashboard.png''
             = Some (PNG (last (figs w')))
         \<and> Imshow (map min_max_normalize [total_rentals, avg_rating, total_revenue])
             \<in> set (axes (last (figs w')) ! 3)))
   \<and> (i < length xs \<longrightarrow>
        (if \<forall>x\<in>set xs. x = xs ! i then min_max_normalize xs ! i = NaN
         else (\<exists>r. min_max_normalize xs ! i = Finite r \<and> 0 \<le> r \<and> r \<le> 1)
            \<and> (xs ! i = Min (set xs) \<longrightarrow> min_max_normalize xs ! i = Finite 0)
            \<and> (xs ! i = Max (set xs) \<longrightarrow> min_max_normalize xs ! i = Finite 1)))"
proof (intro conjI impI)
  assume "create_country_performance_dashboard v w = Some (v', w')"
  then show "\<exists>total_rentals avg_rating total_revenue.
         numeric (country_kpis v) ''total_rentals'' = Some total_rentals
         \<and> numeric (country_kpis v) ''avg_rating'' = Some avg_rating
         \<and> numeric (country_kpis v) ''total_revenue'' = Some total_revenue
         \<and> files w' ''visualizations/country_performance_dashboard.png''
             = Some (PNG (last (figs w')))
         \<and> Imshow (map min_max_normalize [total_rentals, avg_rating, total_revenue])
             \<in> set (axes (last (figs w')) ! 3)"
    by (rule country_content)
next
  assume "i < length xs"
  then show "if \<forall>x\<in>set xs. x = xs ! i then min_max_normalize xs ! i = NaN
         else (\<exists>r. min_max_normalize xs ! i = Finite r \<and> 0 \<le> r \<and> r \<le> 1)
            \<and> (xs ! i = Min (set xs) \<longrightarrow> min_max_normalize xs ! i = Finite 0)
            \<and> (xs ! i = Max (set xs) \<longrightarrow> min_max_normalize xs ! i = Finite 1)"
    by (rule min_max_normalize_cases)
qed

text \<open>On the tables of the builder, the country report is produced and its heatmap is the
  normalized matrix. In the rentals column Belgium holds the minimum and the USA the
  maximum; a constant column gives NaN.\<close>

theorem min_max_normalize_range_witness:
  "(\<exists>v w1 w2 total_rentals avg_rating total_revenue.
      setup_sample_data example_random example_world = Some (v, w1)
      \<and> create_country_performance_dashboard v w1 = Some (v, w2)
      \<and> numeric (country_kpis v) ''total_rentals'' = Some total_rentals
      \<and> total_rentals = [1250, 890, 720, 650, 580, 320, 420]
      \<and> Imshow (map min_max_normalize [total_rentals, avg_rating, total_revenue])
          \<in> set (axes (last (figs w2)) ! 3))
   \<and> min_max_normalize [1250, 890, 720, 650, 580, 320, 420] ! 5 = Finite 0
   \<and> min_max_normalize [1250, 890, 720, 650, 580, 320, 420] ! 0 = Finite 1
   \<and> min_max_normalize [1250, 890, 720, 650, 580, 320, 420] ! 2 = Finite (40 / 93)
   \<and> min_max_normalize [5, 5, 5] ! 1 = NaN"
proof -
  obtain v w1 where s: "setup_sample_data example_random example_world = Some (v, w1)"
    and ck: "country_kpis v = country_kpis_data"
    using setup_eq [of example_random example_world] by simp
  obtain w2 where c: "create_country_performance_dashboard v w1 = Some (v, w2)"
    using country_success [OF ck] by blast
  from min_max_normalize_range [where v = v and w = w1 and v' = v and w' = w2,
      THEN conjunct1, rule_format, OF c]
  obtain total_rentals avg_rating total_revenue where
    n: "numeric (country_kpis v) ''total_rentals'' = Some total_rentals"
    and i: "Imshow (map min_max_normalize [total_rentals, avg_rating, total_revenue])
          \<in> set (axes (last (figs w2)) ! 3)"
    by blast
  have t: "total_rentals = [1250, 890, 720, 650, 580, 320, 420]"
    using n unfolding ck by (simp add: numeric_def getitem_def country_kpis_data_def)
  have 1: "\<exists>v w1 w2 total_rentals avg_rating total_revenue.
      setup_sample_data example_random example_world = Some (v, w1)
      \<and> create_country_performance_dashboard v w1 = Some (v, w2)
      \<and> numeric (country_kpis v) ''total_rentals'' = Some total_rentals
      \<and> total_rentals = [1250, 890, 720, 650, 580, 320, 420]
      \<and> Imshow (map min_max_normalize [total_rentals, avg_rating, total_revenue])
          \<in> set (axes (last (figs w2)) ! 3)"
    using s c n t i by blast
  have 2: "min_max_normalize [1250, 890, 720, 650, 580, 320, 420] ! 5 = Finite 0
   \<and> min_max_normalize [1250, 890, 720, 650, 580, 320, 420] ! 0 = Finite 1
   \<and> min_max_normalize [1250, 890, 720, 650, 580, 320, 420] ! 2 = Finite (40 / 93)
   \<and> min_max_normalize [5, 5, 5] ! 1 = NaN"
    using min_max_normalize_range [where i = 5 and xs = "[1250, 890, 720, 650, 580, 320, 420]",
        THEN conjunct2]
      min_max_normalize_range [where i = 0 and xs = "[1250, 890, 720, 650, 580, 320, 420]",
        THEN conjunct2]
      min_max_normalize_range [where i = 1 and xs = "[5, 5, 5]", THEN conjunct2]
    by (simp add: min_max_normalize_def fdiv_def)
  from 1 2 show ?thesis by (rule conjI)
qed

subsection \<open>Ranks of the genre metrics\<close>

text \<open>
  Claim C5. The ranking matrix of the genre report holds the descending ranks of the three
  columns of the genre metrics (rating, rentals, price), each ranked on its own. In a column
  of \<open>N\<close> values, a value with \<open>g\<close> greater values and \<open>c\<close> occurrences gets the
  average of the ranks \<open>g + 1\<close>, ..., \<open>g + c\<close> that its occurrences hold in the descending
  order (tie-averaging). When the values of the column are distinct, the ranks are the
  numbers 1 to \<open>N\<close>, each once. The three columns of the genre metrics table have seven
  distinct values each, so their ranks are a permutation of 1..7.
\<close>

theorem rank_desc_permutation:
  "(create_genre_analysis v w = Some (v', w') \<longrightarrow>
      (\<exists>avg_rating total_rentals avg_price.
         numeric (genre_performance v) ''avg_rating'' = Some avg_rating
         \<and> numeric (genre_performance v) ''total_rentals'' = Some total_rentals
         \<and> numeric (genre_performance v) ''avg_price'' = Some avg_price
         \<and> files w' ''visualizations/genre_analysis.png'' = Some (PNG (last (figs w')))
         \<and> Imshow (map (map Finite) [rank_desc avg_rating, rank_desc total_rentals,
               rank_desc avg_price]) \<in> set (axes (last (figs w')) ! 3)))
   \<and> (distinct xs \<longrightarrow> mset (rank_desc xs) = mset (map of_nat [1..<Suc (length xs)]))
   \<and> (\<forall>i<length xs.
         rank_desc xs ! i =
           of_nat (sum_list [Suc (length (filter (\<lambda>y. xs ! i < y) xs)) ..<
                             Suc (length (filter (\<lambda>y. xs ! i < y) xs)
                                  + length (filter (\<lambda>y. y = xs ! i) xs))])
           / of_nat (length (filter (\<lambda>y. y = xs ! i) xs)))
   \<and> (\<forall>name\<in>set [''avg_rating'', ''total_rentals'', ''avg_price''].
         \<exists>col. numeric genre_performance_data name = Some col \<and> length col = 7
           \<and> mset (rank_desc col) = mset (map of_nat [1..<8]))"
proof (intro conjI impI allI)
  assume "create_genre_analysis v w = Some (v', w')"
  from genre_content [OF this]
  show "\<exists>avg_rating total_rentals avg_price.
         numeric (genre_performance v) ''avg_rating'' = Some avg_rating
         \<and> numeric (genre_performance v) ''total_rentals'' = Some total_rentals
         \<and> numeric (genre_performance v) ''avg_price'' = Some avg_price
         \<and> files w' ''visualizations/genre_analysis.png'' = Some (PNG (last (figs w')))
         \<and> Imshow (map (map Finite) [rank_desc avg_rating, rank_desc total_rentals,
               rank_desc avg_price]) \<in> set (axes (last (figs w')) ! 3)"
    by blast
next
  assume "distinct xs"
  then show "mset (rank_desc xs) = mset (map of_nat [1..<Suc (length xs)])"
    by (rule rank_desc_distinct)
next
  fix i assume "i < length xs"
  from rank_desc_nth [OF this] show "rank_desc xs ! i =
           of_nat (sum_list [Suc (length (filter (\<lambda>y. xs ! i < y) xs)) ..<
                             Suc (length (filter (\<lambda>y. xs ! i < y) xs)
                                  + length (filter (\<lambda>y. y = xs ! i) xs))])
           / of_nat (length (filter (\<lambda>y. y = xs ! i) xs))"
    by (simp only: map_Suc_upt)
next
  have r: "\<And>col :: rat list. distinct col \<Longrightarrow> length col = 7 \<Longrightarrow>
      mset (rank_desc col) = mset (map of_nat [1..<8])"
    using rank_desc_distinct by fastforce
  have "mset (rank_desc [81/10, 73/10, 69/10, 62/10, 78/10, 71/10, 75/10])
      = mset (map of_nat [1..<8])"
    by (rule r) simp_all
  moreover have "mset (rank_desc (map of_int [980, 1200, 1100, 450, 680, 720, 380]))
      = mset (map of_nat [1..<8])"
    by (rule r) simp_all
  moreover have "mset (rank_desc [450/100, 380/100, 420/100, 350/100, 410/100, 400/100, 480/100])
      = mset (map of_nat [1..<8])"
    by (rule r) simp_all
  ultimately show "\<forall>name\<in>set [''avg_rating'', ''total_rentals'', ''avg_price''].
         \<exists>col. numeric genre_performance_data name = Some col \<and> length col = 7
           \<and> mset (rank_desc col) = mset (map of_nat [1..<8])"
    by (simp add: numeric_def getitem_def genre_performance_data_def)
qed

text \<open>On the tables of the builder the genre report is produced, with the ranks of the
  genre ratings as computed; and a column with a tie: the two values 5 share the ranks 1
  and 2.\<close>

theorem rank_desc_permutation_witness:
  "(\<exists>v w1 w2 avg_rating total_rentals avg_price.
      setup_sample_data example_random example_world = Some (v, w1)
      \<and> create_genre_analysis v w1 = Some (v, w2)
      \<and> numeric (genre_performance v) ''avg_rating'' = Some avg_rating
      \<and> Imshow (map (map Finite) [rank_desc avg_rating, rank_desc total_rentals,
            rank_desc avg_price]) \<in> set (axes (last (figs w2)) ! 3)
      \<and> rank_desc avg_rating = [1, 4, 6, 7, 2, 5, 3])
   \<and> distinct [81/10, 73/10, 69/10, 62/10, 78/10, 71/10, 75/10 :: rat]
   \<and> mset (rank_desc [81/10, 73/10, 69/10, 62/10, 78/10, 71/10, 75/10])
       = mset (map of_nat [1..<Suc 7])
   \<and> rank_desc [3, 5, 5] ! 1 = 3 / 2"
proof -
  have d: "distinct [81/10, 73/10, 69/10, 62/10, 78/10, 71/10, 75/10 :: rat]" by simp
  have e: "rank_desc [81/10, 73/10, 69/10, 62/10, 78/10, 71/10, 75/10] = [1, 4, 6, 7, 2, 5, 3]"
    by code_simp
  have t: "rank_desc [3, 5, 5] ! 1 = 3 / 2"
    using rank_desc_permutation [where xs = "[3, 5, 5]", THEN conjunct2, THEN conjunct2,
        THEN conjunct1]
    by (simp add: upt_rec)
  have len: "Suc (length [81/10, 73/10, 69/10, 62/10, 78/10, 71/10, 75/10 :: rat]) = Suc 7"
    by simp
  have p: "mset (rank_desc [81/10, 73/10, 69/10, 62/10, 78/10, 71/10, 75/10])
       = mset (map of_nat [1..<Suc 7])"
    by (rule rank_desc_permutation
        [where xs = "[81/10, 73/10, 69/10, 62/10, 78/10, 71/10, 75/10]",
         THEN conjunct2, THEN conjunct1, rule_format, OF d, unfolded len])
  obtain v w1 where s: "setup_sample_data example_random example_world = Some (v, w1)"
    and gp: "genre_performance v = genre_performance_data"
    using setup_eq [of example_random example_world] by simp
  obtain w2 where g: "create_genre_analysis v w1 = Some (v, w2)"
    using genre_success [OF gp] by blast
  from rank_desc_permutation [where v = v and w = w1 and v' = v and w' = w2,
      THEN conjunct1, rule_format, OF g]
  obtain avg_rating total_rentals avg_price where
    n: "numeric (genre_performance v) ''avg_rating'' = Some avg_rating"
    and i: "Imshow (map (map Finite) [rank_desc avg_rating, rank_desc total_rentals,
            rank_desc avg_price]) \<in> set (axes (last (figs w2)) ! 3)"
    by blast
  have "avg_rating = [81/10, 73/10, 69/10, 62/10, 78/10, 71/10, 75/10]"
    using n unfolding gp by (simp add: numeric_def getitem_def genre_performance_data_def)
  then have r: "rank_desc avg_rating = [1, 4, 6, 7, 2, 5, 3]"
    using e by simp
  have 1: "\<exists>v w1 w2 avg_rating total_rentals avg_price.
      setup_sample_data example_random example_world = Some (v, w1)
      \<and> create_genre_analysis v w1 = Some (v, w2)
      \<and> numeric (genre_performance v) ''avg_rating'' = Some avg_rating
      \<and> Imshow (map (map Finite) [rank_desc avg_rating, rank_desc total_rentals,
            rank_desc avg_price]) \<in> set (axes (last (figs w2)) ! 3)
      \<and> rank_desc avg_rating = [1, 4, 6, 7, 2, 5, 3]"
    using s g n i r by blast
  from 1 d p t show ?thesis by (intro conjI)
qed

subsection \<open>Revenue per rental\<close>

text \<open>
  Claim C6. The series drawn in the fourth panel of the temporal report holds, for every
  month, the stored revenue divided by the stored rentals of that month: the quotient of the
  two integers, with no rounding step of the program's own (the model computes in exact
  rationals). Where the rentals are zero, the entry is the outcome of numpy's division by
  zero instead.
\<close>

theorem revenue_per_rental_exact:
  assumes "create_temporal_analysis v w = Some (v', w')"
    and "getitem (monthly_trends v) ''revenue'' = Some (IntCol revenue)"
    and "getitem (monthly_trends v) ''rentals'' = Some (IntCol rentals)"
  shows "\<exists>F month ratio.
      files w' ''visualizations/temporal_analysis.png'' = Some (PNG F)
      \<and> Plot (Dates month) ratio \<in> set (axes F ! 3)
      \<and> length ratio = min (length revenue) (length rentals)
      \<and> (\<forall>i<length ratio.
            ratio ! i = fdiv (of_int (revenue ! i)) (of_int (rentals ! i))
            \<and> (rentals ! i \<noteq> 0 \<longrightarrow>
                 ratio ! i = Finite (of_int (revenue ! i) / of_int (rentals ! i))))"
proof -
  from temporal_content [OF assms(1)] obtain month rs rv where
    rs: "numeric (monthly_trends v) ''rentals'' = Some rs"
    and rv: "numeric (monthly_trends v) ''revenue'' = Some rv"
    and f: "files w' ''visualizations/temporal_analysis.png'' = Some (PNG (last (figs w')))"
    and p: "Plot (Dates month) (series_div rv rs) \<in> set (axes (last (figs w')) ! 3)"
    by blast
  have rs': "rs = map of_int rentals" and rv': "rv = map of_int revenue"
    using rs rv assms(2,3) by (simp_all add: numeric_def)
  let ?ratio = "series_div (map of_int revenue) (map of_int rentals)"
  have len: "length ?ratio = min (length revenue) (length rentals)"
    by (simp add: series_div_def)
  have nth: "?ratio ! i = fdiv (of_int (revenue ! i)) (of_int (rentals ! i))"
    if "i < length ?ratio" for i
    using that by (simp add: series_div_def)
  have "\<forall>i<length ?ratio.
            ?ratio ! i = fdiv (of_int (revenue ! i)) (of_int (rentals ! i))
            \<and> (rentals ! i \<noteq> 0 \<longrightarrow>
                 ?ratio ! i = Finite (of_int (revenue ! i) / of_int (rentals ! i)))"
    using nth by (simp add: fdiv_def)
  with f p len show ?thesis unfolding rs' rv' by blast
qed

text \<open>On the tables that the builder makes with the example generator: the first month has
  575 rentals and a revenue of 5600.\<close>

theorem revenue_per_rental_exact_witness:
  "\<exists>v w1 w2 F month ratio.
     setup_sample_data example_random example_world = Some (v, w1)
     \<and> create_temporal_analysis v w1 = Some (v, w2)
     \<and> files w2 ''visualizations/temporal_analysis.png'' = Some (PNG F)
     \<and> Plot (Dates month) ratio \<in> set (axes F ! 3)
     \<and> length ratio = 24
     \<and> ratio ! 0 = Finite (5600 / 575)"
proof -
  let ?rentals = "map astype_int
      (fst (normal example_random 800 150 24 (seed_state example_random 42)))"
  let ?revenue = "map astype_int (fst (normal example_random 5600 1050 24
      (snd (normal example_random 800 150 24 (seed_state example_random 42)))))"
  obtain v w1 where s: "setup_sample_data example_random example_world = Some (v, w1)"
    and mt: "monthly_trends v = monthly_trends_data (date_range_M (Date 2018 1 1) (Date 2019 12 31))
                (fst (normal example_random 800 150 24 (seed_state example_random 42)))
                (fst (normal example_random 5600 1050 24
                   (snd (normal example_random 800 150 24 (seed_state example_random 42)))))
                (fst (normal example_random 45 12 24 (snd (normal example_random 5600 1050 24
                   (snd (normal example_random 800 150 24 (seed_state example_random 42)))))))"
    using setup_eq [of example_random example_world] by simp
  obtain w2 where t: "create_temporal_analysis v w1 = Some (v, w2)"
    using temporal_success [OF mt length_months] by auto
  have rev: "getitem (monthly_trends v) ''revenue'' = Some (IntCol ?revenue)"
    and ren: "getitem (monthly_trends v) ''rentals'' = Some (IntCol ?rentals)"
    unfolding mt by (simp_all add: getitem_def monthly_trends_data_def)
  from revenue_per_rental_exact [OF t rev ren] obtain F month ratio where
    f: "files w2 ''visualizations/temporal_analysis.png'' = Some (PNG F)"
    and p: "Plot (Dates month) ratio \<in> set (axes F ! 3)"
    and l: "length ratio = min (length ?revenue) (length ?rentals)"
    and n: "\<forall>i<length ratio.
            ratio ! i = fdiv (of_int (?revenue ! i)) (of_int (?rentals ! i))
            \<and> (?rentals ! i \<noteq> 0 \<longrightarrow>
                 ratio ! i = Finite (of_int (?revenue ! i) / of_int (?rentals ! i)))"
    by blast
  have l24: "length ratio = 24" using l by simp
  then have "ratio ! 0 = fdiv (of_int (?revenue ! 0)) (of_int (?rentals ! 0))"
    using n by simp
  then have r0: "ratio ! 0 = Finite (5600 / 575)"
    unfolding example_first_draws by (simp add: fdiv_def)
  from s t f p l24 r0 show ?thesis by blast
qed

subsection \<open>The trend lines\<close>

text \<open>
  Claim C7, as the code has it. The two trend lines are least-squares lines over the
  abscissae that the generator hands to \<open>polyfit\<close>. In the temporal report these are the
  positions 0, ..., N - 1 of the months, and the coefficients of the line drawn in the first
  panel minimise the sum of squared residuals against the monthly rentals. In the genre
  report the abscissae are the average prices of the genres, not positions: the line drawn
  in the third panel minimises the sum of squared residuals of the average ratings against
  the average prices.
\<close>

theorem trend_lines_least_squares:
  "(create_temporal_analysis v w = Some (v', w') \<longrightarrow>
      (\<exists>month rentals z.
         dates (monthly_trends v) ''month'' = Some month
         \<and> numeric (monthly_trends v) ''rentals'' = Some rentals
         \<and> length rentals = len_df (monthly_trends v)
         \<and> files w' ''visualizations/temporal_analysis.png'' = Some (PNG (last (figs w')))
         \<and> Plot (Dates month)
               (map Finite (poly1d z (map of_nat [0..<len_df (monthly_trends v)])))
             \<in> set (axes (last (figs w')) ! 0)
         \<and> (\<forall>a b. sq_residuals (fst z) (snd z) (map of_nat [0..<len_df (monthly_trends v)]) rentals
                 \<le> sq_residuals a b (map of_nat [0..<len_df (monthly_trends v)]) rentals)))
   \<and> (create_genre_analysis v w = Some (v', w') \<longrightarrow>
      (\<exists>avg_price avg_rating z.
         numeric (genre_performance v) ''avg_price'' = Some avg_price
         \<and> numeric (genre_performance v) ''avg_rating'' = Some avg_rating
         \<and> files w' ''visualizations/genre_analysis.png'' = Some (PNG (last (figs w')))
         \<and> Plot (Num (map Finite avg_price)) (map Finite (poly1d z avg_price))
             \<in> set (axes (last (figs w')) ! 2)
         \<and> (\<forall>a b. sq_residuals (fst z) (snd z) avg_price avg_rating
                 \<le> sq_residuals a b avg_price avg_rating)))"
proof (intro conjI impI)
  assume "create_temporal_analysis v w = Some (v', w')"
  from temporal_content [OF this] obtain month rentals z where
    m: "dates (monthly_trends v) ''month'' = Some month"
    and r: "numeric (monthly_trends v) ''rentals'' = Some rentals"
    and z: "polyfit1 (map of_nat [0..<len_df (monthly_trends v)]) rentals = Some z"
    and f: "files w' ''visualizations/temporal_analysis.png'' = Some (PNG (last (figs w')))"
    and p: "Plot (Dates month)
               (map Finite (poly1d z (map of_nat [0..<len_df (monthly_trends v)])))
             \<in> set (axes (last (figs w')) ! 0)"
    by blast
  have l: "length rentals = len_df (monthly_trends v)"
    using z by (auto simp: polyfit1_def Let_def split: if_splits)
  have "\<forall>a b. sq_residuals (fst z) (snd z) (map of_nat [0..<len_df (monthly_trends v)]) rentals
                 \<le> sq_residuals a b (map of_nat [0..<len_df (monthly_trends v)]) rentals"
    using polyfit1_least_squares [OF z] by blast
  with m r l f p show "\<exists>month rentals z.
         dates (monthly_trends v) ''month'' = Some month
         \<and> numeric (monthly_trends v) ''rentals'' = Some rentals
         \<and> length rentals = len_df (monthly_trends v)
         \<and> files w' ''visualizations/temporal_analysis.png'' = Some (PNG (last (figs w')))
         \<and> Plot (Dates month)
               (map Finite (poly1d z (map of_nat [0..<len_df (monthly_trends v)])))
             \<in> set (axes (last (figs w')) ! 0)
         \<and> (\<forall>a b. sq_residuals (fst z) (snd z) (map of_nat [0..<len_df (monthly_trends v)]) rentals
                 \<le> sq_residuals a b (map of_nat [0..<len_df (monthly_trends v)]) rentals)"
    by blast
next
  assume "create_genre_analysis v w = Some (v', w')"
  from genre_content [OF this] obtain avg_price avg_rating a b where
    pr: "numeric (genre_performance v) ''avg_price'' = Some avg_price"
    and ra: "numeric (genre_performance v) ''avg_rating'' = Some avg_rating"
    and z: "polyfit1 avg_price avg_rating = Some (a, b)"
    and f: "files w' ''visualizations/genre_analysis.png'' = Some (PNG (last (figs w')))"
    and p: "Plot (Num (map Finite avg_price)) (map Finite (poly1d (a, b) avg_price))
             \<in> set (axes (last (figs w')) ! 2)"
    by blast
  have "\<forall>a' b'. sq_residuals (fst (a, b)) (snd (a, b)) avg_price avg_rating
                 \<le> sq_residuals a' b' avg_price avg_rating"
    using polyfit1_least_squares [OF z] by blast
  with pr ra f p show "\<exists>avg_price avg_rating z.
         numeric (genre_performance v) ''avg_price'' = Some avg_price
         \<and> numeric (genre_performance v) ''avg_rating'' = Some avg_rating
         \<and> files w' ''visualizations/genre_analysis.png'' = Some (PNG (last (figs w')))
         \<and> Plot (Num (map Finite avg_price)) (map Finite (poly1d z avg_price))
             \<in> set (axes (last (figs w')) ! 2)
         \<and> (\<forall>a b. sq_residuals (fst z) (snd z) avg_price avg_rating
                 \<le> sq_residuals a b avg_price avg_rating)"
    by blast
qed

text \<open>On the tables that the builder makes with the example generator, both reports are
  produced and both trend lines are least-squares lines over their own abscissae.\<close>

theorem trend_lines_least_squares_witness:
  "\<exists>v w1 w2 w3.
     setup_sample_data example_random example_world = Some (v, w1)
     \<and> create_temporal_analysis v w1 = Some (v, w2)
     \<and> create_genre_analysis v w1 = Some (v, w3)
     \<and> (\<exists>month rentals z.
           numeric (monthly_trends v) ''rentals'' = Some rentals
           \<and> length rentals = 24
           \<and> Plot (Dates month) (map Finite (poly1d z (map of_nat [0..<24])))
               \<in> set (axes (last (figs w2)) ! 0)
           \<and> (\<forall>a b. sq_residuals (fst z) (snd z) (map of_nat [0..<24]) rentals
                   \<le> sq_residuals a b (map of_nat [0..<24]) rentals))
     \<and> (\<exists>avg_price avg_rating z.
           numeric (genre_performance v) ''avg_price'' = Some avg_price
           \<and> numeric (genre_performance v) ''avg_rating'' = Some avg_rating
           \<and> Plot (Num (map Finite avg_price)) (map Finite (poly1d z avg_price))
               \<in> set (axes (last (figs w3)) ! 2)
           \<and> (\<forall>a b. sq_residuals (fst z) (snd z) avg_price avg_rating
                   \<le> sq_residuals a b avg_price avg_rating))"
proof -
  obtain v w1 where s: "setup_sample_data example_random example_world = Some (v, w1)"
    and gp: "genre_performance v = genre_performance_data"
    and mt: "monthly_trends v = monthly_trends_data (date_range_M (Date 2018 1 1) (Date 2019 12 31))
                (fst (normal example_random 800 150 24 (seed_state example_random 42)))
                (fst (normal example_random 5600 1050 24
                   (snd (normal example_random 800 150 24 (seed_state example_random 42)))))
                (fst (normal example_random 45 12 24 (snd (normal example_random 5600 1050 24
                   (snd (normal example_random 800 150 24 (seed_state example_random 42)))))))"
    using setup_eq [of example_random example_world] by simp
  obtain w2 where t: "create_temporal_analysis v w1 = Some (v, w2)"
    using temporal_success [OF mt length_months] by auto
  obtain w3 where g: "create_genre_analysis v w1 = Some (v, w3)"
    using genre_success [OF gp] by blast
  have n: "len_df (monthly_trends v) = 24"
    unfolding mt by (simp add: len_df_def monthly_trends_data_def length_months [simplified])
  note th1 = trend_lines_least_squares [where v = v and w = w1 and v' = v and w' = w2,
      THEN conjunct1, rule_format, OF t, unfolded n]
  note th2 = trend_lines_least_squares [where v = v and w = w1 and v' = v and w' = w3,
      THEN conjunct2, rule_format, OF g]
  have 1: "\<exists>month rentals z.
           numeric (monthly_trends v) ''rentals'' = Some rentals
           \<and> length rentals = 24
           \<and> Plot (Dates month) (map Finite (poly1d z (map of_nat [0..<24])))
               \<in> set (axes (last (figs w2)) ! 0)
           \<and> (\<forall>a b. sq_residuals (fst z) (snd z) (map of_nat [0..<24]) rentals
                   \<le> sq_residuals a b (map of_nat [0..<24]) rentals)"
    using th1 by blast
  have 2: "\<exists>avg_price avg_rating z.
           numeric (genre_performance v) ''avg_price'' = Some avg_price
           \<and> numeric (genre_performance v) ''avg_rating'' = Some avg_rating
           \<and> Plot (Num (map Finite avg_price)) (map Finite (poly1d z avg_price))
               \<in> set (axes (last (figs w3)) ! 2)
           \<and> (\<forall>a b. sq_residuals (fst z) (snd z) avg_price avg_rating
                   \<le> sq_residuals a b avg_price avg_rating)"
    using th2 by blast
  from s t g 1 2 show ?thesis by blast
qed

text \<open>
  The claim as it is written fails on the genre report. On the genre table of the source,
  the abscissae of the trend line that the report draws are the seven average prices, which
  are not the positions 0, ..., 6, and its coefficients do not minimise the squared residuals
  of a line over those positions: the horizontal line at 7 has smaller residuals there.
\<close>

theorem genre_trend_not_over_positions:
  "\<exists>v w1 w2 avg_price avg_rating z.
     setup_sample_data example_random example_world = Some (v, w1)
     \<and> create_genre_analysis v w1 = Some (v, w2)
     \<and> numeric (genre_performance v) ''avg_price'' = Some avg_price
     \<and> numeric (genre_performance v) ''avg_rating'' = Some avg_rating
     \<and> files w2 ''visualizations/genre_analysis.png'' = Some (PNG (last (figs w2)))
     \<and> Plot (Num (map Finite avg_price)) (map Finite (poly1d z avg_price))
         \<in> set (axes (last (figs w2)) ! 2)
     \<and> avg_price \<noteq> map of_nat [0..<length avg_price]
     \<and> \<not> (\<forall>a b. sq_residuals (fst z) (snd z) (map of_nat [0..<length avg_rating]) avg_rating
               \<le> sq_residuals a b (map of_nat [0..<length avg_rating]) avg_rating)"
proof -
  let ?P = "[450/100, 380/100, 420/100, 350/100, 410/100, 400/100, 480/100] :: rat list"
  let ?R = "[81/10, 73/10, 69/10, 62/10, 78/10, 71/10, 75/10] :: rat list"
  obtain v w1 where s: "setup_sample_data example_random example_world = Some (v, w1)"
    and gp: "genre_performance v = genre_performance_data"
    using setup_eq [of example_random example_world] by simp
  obtain w2 where g: "create_genre_analysis v w1 = Some (v, w2)"
    using genre_success [OF gp] by blast
  have pr: "numeric (genre_performance v) ''avg_price'' = Some ?P"
    and ra: "numeric (genre_performance v) ''avg_rating'' = Some ?R"
    unfolding gp by (simp_all add: numeric_def getitem_def genre_performance_data_def)
  from genre_content [OF g] pr ra obtain a b where
    z: "polyfit1 ?P ?R = Some (a, b)"
    and f: "files w2 ''visualizations/genre_analysis.png'' = Some (PNG (last (figs w2)))"
    and p: "Plot (Num (map Finite ?P)) (map Finite (poly1d (a, b) ?P))
             \<in> set (axes (last (figs w2)) ! 2)"
    by auto
  have ab: "(a, b) = (129 / 130, 4127 / 1300)"
    using z unfolding genre_trend_values(1) by simp
  have ne: "?P \<noteq> map of_nat [0..<length ?P]" by (simp add: upt_rec)
  have len7: "length ?R = 7" by simp
  have "sq_residuals 0 7 (map of_nat [0..<length ?R]) ?R
      < sq_residuals (fst (a, b)) (snd (a, b)) (map of_nat [0..<length ?R]) ?R"
    unfolding ab fst_conv snd_conv len7 by (rule genre_trend_values(2))
  then have "\<not> (\<forall>a' b'. sq_residuals (fst (a, b)) (snd (a, b)) (map of_nat [0..<length ?R]) ?R
               \<le> sq_residuals a' b' (map of_nat [0..<length ?R]) ?R)"
    by (meson not_le)
  with s g pr ra f p ne show ?thesis by blast
qed

subsection \<open>The generators only read the tables\<close>

text \<open>
  Claim C8. A report generator that returns leaves the instance, and with it the five
  tables, as it found them. What it does to the world does not depend on the world it
  starts in, so not on which other generators have run before: a static generator opens one
  more figure and writes that figure to its own path, the interactive one writes its figure
  to its path and prints one line; the figure is the same in every world, and nothing else
  changes.
\<close>

theorem generators_read_only:
  fixes w w0 :: "'g world"
  shows
  "(create_country_performance_dashboard v w = Some (v', w') \<longrightarrow>
      v' = v \<and> create_country_performance_dashboard v w0 =
        Some (v, w0\<lparr>figs := figs w0 @ [last (figs w')],
          files := (files w0)(''visualizations/country_performance_dashboard.png'' \<mapsto>
            PNG (last (figs w')))\<rparr>))
   \<and> (create_genre_analysis v w = Some (v', w') \<longrightarrow>
      v' = v \<and> create_genre_analysis v w0 =
        Some (v, w0\<lparr>figs := figs w0 @ [last (figs w')],
          files := (files w0)(''visualizations/genre_analysis.png'' \<mapsto>
            PNG (last (figs w')))\<rparr>))
   \<and> (create_customer_segmentation_viz v w = Some (v', w') \<longrightarrow>
      v' = v \<and> create_customer_segmentation_viz v w0 =
        Some (v, w0\<lparr>figs := figs w0 @ [last (figs w')],
          files := (files w0)(''visualizations/customer_segmentation.png'' \<mapsto>
            PNG (last (figs w')))\<rparr>))
   \<and> (create_temporal_analysis v w = Some (v', w') \<longrightarrow>
      v' = v \<and> create_temporal_analysis v w0 =
        Some (v, w0\<lparr>figs := figs w0 @ [last (figs w')],
          files := (files w0)(''visualizations/temporal_analysis.png'' \<mapsto>
            PNG (last (figs w')))\<rparr>))
   \<and> (create_interactive_dashboard v w = Some (fig, v', w') \<longrightarrow>
      v' = v \<and> create_interactive_dashboard v w0 =
        Some (fig, v, w0\<lparr>files := (files w0)(''visualizations/interactive_dashboard.html'' \<mapsto>
            HTML fig),
          console := console w0 @ [''Interactive dashboard saved as '' @ [CHR 0x27]
                    @ ''visualizations/interactive_dashboard.html'' @ [CHR 0x27]]\<rparr>))"
proof (intro conjI impI)
  assume r: "create_country_performance_dashboard v w = Some (v', w')"
  show "v' = v" by (rule country_effect(1) [OF r])
  show "create_country_performance_dashboard v w0 =
        Some (v, w0\<lparr>figs := figs w0 @ [last (figs w')],
          files := (files w0)(''visualizations/country_performance_dashboard.png'' \<mapsto>
            PNG (last (figs w')))\<rparr>)"
    using country_effect(2) [OF r, of w0] country_effect(3) [OF r] by simp
next
  assume r: "create_genre_analysis v w = Some (v', w')"
  show "v' = v" by (rule genre_effect(1) [OF r])
  show "create_genre_analysis v w0 =
        Some (v, w0\<lparr>figs := figs w0 @ [last (figs w')],
          files := (files w0)(''visualizations/genre_analysis.png'' \<mapsto>
            PNG (last (figs w')))\<rparr>)"
    using genre_effect(2) [OF r, of w0] genre_effect(3) [OF r] by simp
next
  assume r: "create_customer_segmentation_viz v w = Some (v', w')"
  show "v' = v" by (rule segmentation_effect(1) [OF r])
  show "create_customer_segmentation_viz v w0 =
        Some (v, w0\<lparr>figs := figs w0 @ [last (figs w')],
          files := (files w0)(''visualizations/customer_segmentation.png'' \<mapsto>
            PNG (last (figs w')))\<rparr>)"
    using segmentation_effect(2) [OF r, of w0] segmentation_effect(3) [OF r] by simp
next
  assume r: "create_temporal_analysis v w = Some (v', w')"
  show "v' = v" by (rule temporal_effect(1) [OF r])
  show "create_temporal_analysis v w0 =
        Some (v, w0\<lparr>figs := figs w0 @ [last (figs w')],
          files := (files w0)(''visualizations/temporal_analysis.png'' \<mapsto>
            PNG (last (figs w')))\<rparr>)"
    using temporal_effect(2) [OF r, of w0] temporal_effect(3) [OF r] by simp
next
  assume r: "create_interactive_dashboard v w = Some (fig, v', w')"
  show "v' = v" by (rule interactive_effect(1) [OF r])
  show "create_interactive_dashboard v w0 =
        Some (fig, v, w0\<lparr>files := (files w0)(''visualizations/interactive_dashboard.html'' \<mapsto>
            HTML fig),
          console := console w0 @ [''Interactive dashboard saved as '' @ [CHR 0x27]
                    @ ''visualizations/interactive_dashboard.html'' @ [CHR 0x27]]\<rparr>)"
    by (rule interactive_effect(2) [OF r])
qed

text \<open>On the tables of the builder: the country generator writes the same file whether it
  runs first or after the genre generator, and the instance stays the same.\<close>

theorem generators_read_only_witness:
  "\<exists>v w1 w2 w3 w4.
     setup_sample_data example_random example_world = Some (v, w1)
     \<and> create_country_performance_dashboard v w1 = Some (v, w2)
     \<and> create_genre_analysis v w1 = Some (v, w3)
     \<and> create_country_performance_dashboard v w3 = Some (v, w4)
     \<and> files w4 ''visualizations/country_performance_dashboard.png''
         = files w2 ''visualizations/country_performance_dashboard.png''
     \<and> files w2 ''visualizations/country_performance_dashboard.png'' \<noteq> None"
proof -
  obtain v w1 where s: "setup_sample_data example_random example_world = Some (v, w1)"
    and ck: "country_kpis v = country_kpis_data"
    and gp: "genre_performance v = genre_performance_data"
    using setup_eq [of example_random example_world] by simp
  obtain w2 where c: "create_country_performance_dashboard v w1 = Some (v, w2)"
    using country_success [OF ck] by blast
  obtain w3 where g: "create_genre_analysis v w1 = Some (v, w3)"
    using genre_success [OF gp] by blast
  note th = generators_read_only [where v = v and w = w1 and v' = v and w' = w2,
      THEN conjunct1, rule_format, OF c]
  have e: "w2 = w1\<lparr>figs := figs w1 @ [last (figs w2)],
      files := (files w1)(''visualizations/country_performance_dashboard.png'' \<mapsto>
        PNG (last (figs w2)))\<rparr>"
    using th [where ?w0.0 = w1] c by simp
  have f2: "files w2 ''visualizations/country_performance_dashboard.png''
      = Some (PNG (last (figs w2)))"
    using arg_cong [OF e, where f = "\<lambda>w. files w ''visualizations/country_performance_dashboard.png''"]
    by simp
  define w4 where "w4 = w3\<lparr>figs := figs w3 @ [last (figs w2)],
      files := (files w3)(''visualizations/country_performance_dashboard.png'' \<mapsto>
        PNG (last (figs w2)))\<rparr>"
  have c4: "create_country_performance_dashboard v w3 = Some (v, w4)"
    unfolding w4_def using th [where ?w0.0 = w3] by simp
  have f4: "files w4 ''visualizations/country_performance_dashboard.png''
      = files w2 ''visualizations/country_performance_dashboard.png''"
    unfolding f2 by (simp add: w4_def)
  from s c g c4 f4 f2 show ?thesis by blast
qed

subsection \<open>The actor table is not read\<close>

text \<open>
  Claim C9. No generator reads the actor table: with any two actor tables in the instance,
  each of the five generators, and the orchestrator that runs them all, fails or succeeds
  alike and leaves the same world behind (the same figures, files and printed lines); the
  interactive generator returns the same figure.
\<close>

theorem actor_analysis_unused:
  "map_option snd (create_country_performance_dashboard (v\<lparr>actor_analysis := a1\<rparr>) w)
     = map_option snd (create_country_performance_dashboard (v\<lparr>actor_analysis := a2\<rparr>) w)
   \<and> map_option snd (create_genre_analysis (v\<lparr>actor_analysis := a1\<rparr>) w)
     = map_option snd (create_genre_analysis (v\<lparr>actor_analysis := a2\<rparr>) w)
   \<and> map_option snd (create_customer_segmentation_viz (v\<lparr>actor_analysis := a1\<rparr>) w)
     = map_option snd (create_customer_segmentation_viz (v\<lparr>actor_analysis := a2\<rparr>) w)
   \<and> map_option snd (create_temporal_analysis (v\<lparr>actor_analysis := a1\<rparr>) w)
     = map_option snd (create_temporal_analysis (v\<lparr>actor_analysis := a2\<rparr>) w)
   \<and> map_option (\<lambda>(fig, v', w'). (fig, w'))
         (create_interactive_dashboard (v\<lparr>actor_analysis := a1\<rparr>) w)
     = map_option (\<lambda>(fig, v', w'). (fig, w'))
         (create_interactive_dashboard (v\<lparr>actor_analysis := a2\<rparr>) w)
   \<and> map_option snd (generate_all_visualizations (v\<lparr>actor_analysis := a1\<rparr>) w)
     = map_option snd (generate_all_visualizations (v\<lparr>actor_analysis := a2\<rparr>) w)"
  by (simp add: country_actor genre_actor segmentation_actor temporal_actor interactive_actor
      generate_all_actor option.map_comp comp_def split_def)

text \<open>The country generator on the tables of the source, with an empty actor table and
  with the actor table of the source: the same world results, and the run succeeds.\<close>

theorem actor_analysis_unused_witness:
  "map_option snd (create_country_performance_dashboard
      (\<lparr>country_kpis = country_kpis_data, genre_performance = genre_performance_data,
        customer_segments = customer_segments_data, monthly_trends = [],
        actor_analysis = []\<rparr>\<lparr>actor_analysis := []\<rparr>) example_world)
   = map_option snd (create_country_performance_dashboard
      (\<lparr>country_kpis = country_kpis_data, genre_performance = genre_performance_data,
        customer_segments = customer_segments_data, monthly_trends = [],
        actor_analysis = []\<rparr>\<lparr>actor_analysis := actor_analysis_data\<rparr>) example_world)
   \<and> create_country_performance_dashboard
      \<lparr>country_kpis = country_kpis_data, genre_performance = genre_performance_data,
        customer_segments = customer_segments_data, monthly_trends = [],
        actor_analysis = actor_analysis_data\<rparr> example_world \<noteq> None"
proof -
  have "\<exists>w'. create_country_performance_dashboard
      \<lparr>country_kpis = country_kpis_data, genre_performance = genre_performance_data,
        customer_segments = customer_segments_data, monthly_trends = [],
        actor_analysis = actor_analysis_data\<rparr> example_world
      = Some (\<lparr>country_kpis = country_kpis_data, genre_performance = genre_performance_data,
        customer_segments = customer_segments_data, monthly_trends = [],
        actor_analysis = actor_analysis_data\<rparr>, w')"
    by (rule country_success) simp
  then have "create_country_performance_dashboard
      \<lparr>country_kpis = country_kpis_data, genre_performance = genre_performance_data,
        customer_segments = customer_segments_data, monthly_trends = [],
        actor_analysis = actor_analysis_data\<rparr> example_world \<noteq> None"
    by auto
  with actor_analysis_unused [where v = "\<lparr>country_kpis = country_kpis_data,
        genre_performance = genre_performance_data,
        customer_segments = customer_segments_data, monthly_trends = [],
        actor_analysis = []\<rparr>" and ?a1.0 = "[]" and w = example_world
        and ?a2.0 = actor_analysis_data, THEN conjunct1]
  show ?thesis by (intro conjI)
qed

end
